theory Spec2Isabelle
  imports Complex_Main
begin

section \<open>Characters and strings\<close>

text \<open>
  The analyser of \<^verbatim>\<open>text_utils.py\<close> works on Python \<^verbatim>\<open>str\<close> values, sequences of code
  points. A \<^typ>\<open>char\<close> stands here for one code point of the Latin-1 range (0 to 255), which
  holds every character the source itself names (the accented vowels of
  \<^verbatim>\<open>tel_lettergrepen\<close>); \<^term>\<open>length\<close> of a \<^typ>\<open>string\<close> is then Python's \<^verbatim>\<open>len\<close>. Texts with
  code points above 255 are outside the model. Python's \<^verbatim>\<open>float\<close> is modelled by
  \<^typ>\<open>real\<close>: the arithmetic is exact, rounding is not modelled.
\<close>

definition is_word_char :: "char \<Rightarrow> bool" where
  \<comment> \<open>the code points below 256 that the regular expression \<^verbatim>\<open>\w\<close> matches\<close>
  "is_word_char c = (let n = (of_char c :: nat) in
     (48 \<le> n \<and> n \<le> 57) \<or> (65 \<le> n \<and> n \<le> 90) \<or> n = 95 \<or> (97 \<le> n \<and> n \<le> 122)
     \<or> n = 170 \<or> n = 178 \<or> n = 179 \<or> n = 181 \<or> n = 185 \<or> n = 186
     \<or> (188 \<le> n \<and> n \<le> 190) \<or> (192 \<le> n \<and> n \<noteq> 215 \<and> n \<noteq> 247))"

definition is_space_char :: "char \<Rightarrow> bool" where
  \<comment> \<open>the code points below 256 that \<^verbatim>\<open>str.strip()\<close> removes\<close>
  "is_space_char c = (let n = (of_char c :: nat) in
     (9 \<le> n \<and> n \<le> 13) \<or> (28 \<le> n \<and> n \<le> 32) \<or> n = 133 \<or> n = 160)"

definition lower_char :: "char \<Rightarrow> char" where
  \<comment> \<open>\<^verbatim>\<open>str.lower()\<close> on one code point below 256\<close>
  "lower_char c = (let n = (of_char c :: nat) in
     if (65 \<le> n \<and> n \<le> 90) \<or> (192 \<le> n \<and> n \<le> 222 \<and> n \<noteq> 215)
     then char_of (n + 32) else c)"

definition lower :: "string \<Rightarrow> string" where
  "lower s = map lower_char s"

definition strip :: "string \<Rightarrow> string" where
  "strip s = rev (dropWhile is_space_char (rev (dropWhile is_space_char s)))"

section \<open>Helper functions of the analyser\<close>

subsection \<open>tokenize\<close>

text \<open>
  \<^verbatim>\<open>re.findall(r'\b\w+\b', text.lower())\<close>: the matches are the maximal runs of word
  characters, left to right. \<open>word_runs cur cs\<close> scans \<open>cs\<close> with the run read so far
  in \<open>cur\<close>.
\<close>

fun word_runs :: "string \<Rightarrow> string \<Rightarrow> string list" where
  "word_runs cur [] = (if cur = [] then [] else [cur])"
| "word_runs cur (c # cs) =
     (if is_word_char c then word_runs (cur @ [c]) cs
      else (if cur = [] then [] else [cur]) @ word_runs [] cs)"

definition tokenize :: "string \<Rightarrow> string list" where
  "tokenize text = word_runs [] (lower text)"

subsection \<open>split_sentences\<close>

definition is_terminator :: "char \<Rightarrow> bool" where
  "is_terminator c = (c = CHR ''.'' \<or> c = CHR ''!'' \<or> c = CHR ''?'')"

text \<open>
  \<^verbatim>\<open>re.split(r'[.!?]+', text)\<close>: the pieces between maximal runs of terminators, the empty
  pieces at both ends included.
\<close>

function re_split :: "string \<Rightarrow> string \<Rightarrow> string list" where
  "re_split cur [] = [cur]"
| "re_split cur (c # cs) =
     (if is_terminator c then cur # re_split [] (dropWhile is_terminator cs)
      else re_split (cur @ [c]) cs)"
  by pat_completeness auto
termination
  by (relation "measure (\<lambda>(cur, cs). length cs)")
     (auto simp: less_Suc_eq_le length_dropWhile_le)

definition split_sentences :: "string \<Rightarrow> string list" where
  "split_sentences text =
     map strip (filter (\<lambda>s. strip s \<noteq> [] \<and> length (strip s) > 5) (re_split [] text))"

subsection \<open>tel_lettergrepen\<close>

definition klinkers :: "string" where
  \<comment> \<open>\<^verbatim>\<open>'aeiou'\<close>, then the acute, grave, diaeresis and circumflex forms of these five, then \<^verbatim>\<open>'y'\<close>\<close>
  "klinkers = ''aeiou''
     @ [CHR 0xE1, CHR 0xE9, CHR 0xED, CHR 0xF3, CHR 0xFA]
     @ [CHR 0xE0, CHR 0xE8, CHR 0xEC, CHR 0xF2, CHR 0xF9]
     @ [CHR 0xE4, CHR 0xEB, CHR 0xEF, CHR 0xF6, CHR 0xFC]
     @ [CHR 0xE2, CHR 0xEA, CHR 0xEE, CHR 0xF4, CHR 0xFB]
     @ ''y''"

definition is_klinker :: "char \<Rightarrow> bool" where
  "is_klinker c = (c \<in> set klinkers)"

text \<open>
  The two nested \<^verbatim>\<open>while\<close> loops of \<^verbatim>\<open>tel_lettergrepen\<close>. The index \<open>i\<close> of the source
  is the number of characters already dropped: the first argument is \<^verbatim>\<open>woord[i:]\<close>, the
  second the counter \<^verbatim>\<open>lettergrepen\<close>. The inner loop advances \<open>i\<close> over the vowels that
  follow, which is \<^term>\<open>dropWhile is_klinker\<close>.
\<close>

function lettergrepen_loop :: "string \<Rightarrow> nat \<Rightarrow> nat" where
  "lettergrepen_loop [] lettergrepen = lettergrepen"
| "lettergrepen_loop (c # cs) lettergrepen =
     (if is_klinker c then lettergrepen_loop (dropWhile is_klinker cs) (lettergrepen + 1)
      else lettergrepen_loop cs lettergrepen)"
  by pat_completeness auto
termination
  by (relation "measure (\<lambda>(cs, n). length cs)")
     (auto simp: less_Suc_eq_le length_dropWhile_le)

definition tel_lettergrepen :: "string \<Rightarrow> nat" where
  "tel_lettergrepen woord0 =
     (let woord = strip (lower woord0) in
      if woord = [] then 0
      else max 1 (lettergrepen_loop woord 0))"

section \<open>Constants of the AVI model\<close>

definition BILT_INTERCEPT :: real where "BILT_INTERCEPT = 43.21"
definition BILT_COEF_FREQ :: real where "BILT_COEF_FREQ = - 0.23"
definition BILT_COEF_WLEN :: real where "BILT_COEF_WLEN = 8.63"

record avi_level =
  niveau :: string
  bilt_min :: "real option"
  bilt_max :: "real option"
  bilt_typical :: real
  pct_freq :: real
  gem_wlen :: real
  max_lettergrepen :: "nat option"
  max_zinslengte :: "nat option"
  leeftijd :: real

definition mk_level ::
  "string \<Rightarrow> real option \<Rightarrow> real option \<Rightarrow> real \<Rightarrow> real \<Rightarrow> real \<Rightarrow> nat option \<Rightarrow> nat option \<Rightarrow> real
   \<Rightarrow> avi_level" where
  "mk_level n lo hi typ pf wl ml mz age =
     \<lparr>avi_level.niveau = n, bilt_min = lo, bilt_max = hi, bilt_typical = typ, pct_freq = pf,
      gem_wlen = wl, avi_level.max_lettergrepen = ml, avi_level.max_zinslengte = mz,
      leeftijd = age\<rparr>"

definition AVI_LEVELS :: "avi_level list" where
  "AVI_LEVELS =
    [mk_level ''AVI-M3'' None (Some 56.0) 51 91 3.3 (Some 1) (Some 6) 6.9,
     mk_level ''AVI-E3'' (Some 56.0) (Some 60.0) 58 80 3.9 (Some 2) (Some 7) 7.2,
     mk_level ''AVI-M4'' (Some 60.0) (Some 62.0) 61 79 4.1 (Some 3) (Some 8) 7.9,
     mk_level ''AVI-E4'' (Some 62.0) (Some 64.5) 63 76 4.4 (Some 4) (Some 9) 8.2,
     mk_level ''AVI-M5'' (Some 64.5) (Some 66.5) 65 75 4.5 None None 8.9,
     mk_level ''AVI-E5'' (Some 66.5) (Some 68.0) 67 75 4.8 None None 9.2,
     mk_level ''AVI-M6'' (Some 68.0) (Some 71.0) 69 71 4.9 None None 9.9,
     mk_level ''AVI-E6'' (Some 71.0) (Some 73.0) 72 63 5.0 None None 10.2,
     mk_level ''AVI-M7'' (Some 73.0) (Some 75.0) 74 60 5.1 None None 10.9,
     mk_level ''AVI-E7'' (Some 75.0) (Some 77.0) 76 58 5.2 None None 11.2,
     mk_level ''AVI-Plus'' (Some 77.0) None 79 55 5.3 None None 12.2]"

text \<open>
  An entry of \<^verbatim>\<open>AVI_KENMERKEN\<close>. A key that is absent and a key whose value is \<^verbatim>\<open>None\<close> both
  read as \<^term>\<open>None\<close>, as \<^verbatim>\<open>dict.get\<close> gives. The keys \<^verbatim>\<open>zinskenmerken\<close> and
  \<^verbatim>\<open>voorbeelden\<close> are read by no function of the analyser and are left out.
\<close>

record kenmerken =
  woordtypen :: "string option"
  max_lettergrepen :: "nat option"
  max_zinslengte :: "nat option"
  nieuw :: "string option"
  verboden :: "string option"

definition mk_kenmerken ::
  "string option \<Rightarrow> nat option \<Rightarrow> nat option \<Rightarrow> string option \<Rightarrow> string option \<Rightarrow> kenmerken" where
  "mk_kenmerken w ml mz n v =
     \<lparr>woordtypen = w, kenmerken.max_lettergrepen = ml, kenmerken.max_zinslengte = mz,
      nieuw = n, verboden = v\<rparr>"

definition lege_kenmerken :: kenmerken where
  \<comment> \<open>the default \<^verbatim>\<open>{}\<close> of \<^verbatim>\<open>AVI_KENMERKEN.get(target, {})\<close>\<close>
  "lege_kenmerken = mk_kenmerken None None None None None"

definition alleen_bilt :: kenmerken where
  \<comment> \<open>the entry shared by AVI-E6, AVI-M7, AVI-E7 and AVI-Plus\<close>
  "alleen_bilt = mk_kenmerken (Some ''Alle woordtypen, alleen BILT bepalend'') None None
     (Some ''Alle structuren toegestaan'') None"

definition AVI_KENMERKEN :: "(string \<times> kenmerken) list" where
  "AVI_KENMERKEN =
    [(''AVI-M3'', mk_kenmerken
        (Some (''Alleen '' @ [CHR 0xE9, CHR 0xE9]
               @ ''nlettergrepige woorden (mkm-structuur: mak, pen, vis)''))
        (Some 1) (Some 6)
        (Some ''Enkelvoudige mkm-woorden'')
        (Some ''Tweelettergrepige woorden, medeklinkerclusters'')),
     (''AVI-E3'', mk_kenmerken
        (Some ([CHR 0xC9, CHR 0xE9]
               @ ''nlettergrepig plus sch-, -ng, -nk, eenvoudige tweelettergrepig''))
        (Some 2) (Some 7)
        (Some ''sch-, -ng, -nk clusters, eenvoudige tweelettergrepige'')
        (Some ''Voorvoegsels be-, ge-, ver-, ont-'')),
     (''AVI-M4'', mk_kenmerken
        (Some ''Voorvoegsels be-, ge-, verkleinwoorden -je, open/gesloten lettergrepen'')
        (Some 3) (Some 8)
        (Some ''be-, ge-, verkleinwoorden, open lettergrepen'')
        (Some ''Voorvoegsels ver-, ont-, achtervoegsels -heid, -lijk'')),
     (''AVI-E4'', mk_kenmerken
        (Some ''Voorvoegsels ver-, ont-, achtervoegsels -lijk, -ig, samenstellingen'')
        (Some 4) (Some 9)
        (Some ''ver-, ont-, -lijk, -ig, samenstellingen'')
        (Some ''Complexe leenwoorden, abstracte begrippen'')),
     (''AVI-M5'', mk_kenmerken
        (Some ''Woorden met x, -tie, c als /k/, uitbreiding woordenschat'')
        None None
        (Some ''x, -tie, c als /k/'')
        (Some ''Complexe leenwoorden met vreemde spelling'')),
     (''AVI-E5'', mk_kenmerken
        (Some (''Leenwoorden met eau, '' @ [CHR 0xE9] @ '', '' @ [CHR 0xE8]
               @ '', ch als /sj/''))
        None None
        (Some (''eau, '' @ [CHR 0xE9] @ '', '' @ [CHR 0xE8] @ '', ch als /sj/''))
        None),
     (''AVI-M6'', mk_kenmerken
        (Some ''Woorden met trema, minder frequente leenwoorden'')
        None None
        (Some (''Trema ('' @ [CHR 0xEB] @ '', '' @ [CHR 0xEF]
               @ ''), uitgebreidere leenwoorden''))
        None),
     (''AVI-E6'', alleen_bilt),
     (''AVI-M7'', alleen_bilt),
     (''AVI-E7'', alleen_bilt),
     (''AVI-Plus'', alleen_bilt)]"

section \<open>Constants of the reference model\<close>

definition REF_INTERCEPT :: real where "REF_INTERCEPT = - 2.3972"
definition REF_COEF_LONG_SENT :: real where "REF_COEF_LONG_SENT = 0.0208"
definition REF_COEF_MARKER_DIV :: real where "REF_COEF_MARKER_DIV = 0.3423"
definition REF_COEF_WL :: real where "REF_COEF_WL = 0.5405"
definition REF_CUTOFF_1F_2F :: real where "REF_CUTOFF_1F_2F = 1.25"
definition REF_CUTOFF_2F_3F :: real where "REF_CUTOFF_2F_3F = 2.35"

record niveau_info =
  naam :: string
  wl_typical :: real
  zl_typical :: real
  long_sent_typical :: real

definition REF_NIVEAU_INFO :: "(string \<times> niveau_info) list" where
  "REF_NIVEAU_INFO =
    [(''1F'', \<lparr>naam = ''Einde basisonderwijs / vmbo-bb'', wl_typical = 4.73,
              zl_typical = 10.9, long_sent_typical = 7\<rparr>),
     (''2F'', \<lparr>naam = ''Einde vmbo / mbo-2,3'', wl_typical = 4.91,
              zl_typical = 14.4, long_sent_typical = 15\<rparr>),
     (''3F'', \<lparr>naam = ''Einde havo / mbo-4'', wl_typical = 5.27,
              zl_typical = 17.4, long_sent_typical = 31\<rparr>)]"

definition DISCOURSE_MARKERS :: "(string \<times> string list) list" where
  "DISCOURSE_MARKERS =
    [(''additief'', [''en'', ''ook'', ''bovendien'', ''daarnaast'', ''verder'', ''tevens'',
                    ''eveneens'', ''daarbij'']),
     (''temporeel'', [''toen'', ''daarna'', ''vervolgens'', ''eerst'', ''dan'', ''later'',
                     ''eerder'', ''voordat'', ''nadat'', ''terwijl'', ''zodra'', ''inmiddels'',
                     ''intussen'', ''uiteindelijk'']),
     (''causaal'', [''omdat'', ''doordat'', ''want'', ''daardoor'', ''daarom'', ''dus'',
                   ''hierdoor'', ''waardoor'', ''aangezien'', ''immers'', ''namelijk'']),
     (''contrastief'', [''maar'', ''echter'', ''toch'', ''hoewel'', ''ondanks'', ''terwijl'',
                       ''daarentegen'', ''integendeel'', ''niettemin'', ''desondanks'',
                       ''weliswaar'']),
     (''conclusief'', [''kortom'', ''samengevat'', ''concluderend'', ''samenvattend'', ''aldus'',
                      ''derhalve'', ''tenslotte'', ''tot slot''])]"

section \<open>Python values: errors, floats with infinities, dictionaries\<close>

datatype py_error = ZeroDivisionError | KeyError | IndexError

definition py_bind :: "py_error + 'a \<Rightarrow> ('a \<Rightarrow> py_error + 'b) \<Rightarrow> py_error + 'b" where
  \<comment> \<open>sequencing: an exception raised by the first computation ends the whole call\<close>
  "py_bind m f = (case m of Inl e \<Rightarrow> Inl e | Inr x \<Rightarrow> f x)"

definition py_div :: "real \<Rightarrow> real \<Rightarrow> py_error + real" where
  \<comment> \<open>the operator \<^verbatim>\<open>/\<close>\<close>
  "py_div a b = (if b = 0 then Inl ZeroDivisionError else Inr (a / b))"

definition py_index :: "'a list \<Rightarrow> nat \<Rightarrow> py_error + 'a" where
  \<comment> \<open>\<^verbatim>\<open>xs[i]\<close> for an index that is not negative\<close>
  "py_index xs i = (if i < length xs then Inr (xs ! i) else Inl IndexError)"

definition py_lookup :: "('k \<times> 'v) list \<Rightarrow> 'k \<Rightarrow> py_error + 'v" where
  \<comment> \<open>\<^verbatim>\<open>d[k]\<close> on a dictionary\<close>
  "py_lookup d k = (case map_of d k of None \<Rightarrow> Inl KeyError | Some v \<Rightarrow> Inr v)"

text \<open>A dictionary built at run time: an association list in insertion order.\<close>

fun dict_get :: "('k \<times> 'v) list \<Rightarrow> 'k \<Rightarrow> 'v \<Rightarrow> 'v" where
  "dict_get [] k d = d"
| "dict_get ((k', v) # kvs) k d = (if k' = k then v else dict_get kvs k d)"

fun dict_set :: "('k \<times> 'v) list \<Rightarrow> 'k \<Rightarrow> 'v \<Rightarrow> ('k \<times> 'v) list" where
  "dict_set [] k v = [(k, v)]"
| "dict_set ((k', v') # kvs) k v = (if k' = k then (k, v) # kvs else (k', v') # dict_set kvs k v)"

text \<open>A float that may be infinite, with the comparisons \<^verbatim>\<open><=\<close> and \<^verbatim>\<open><\<close>.\<close>

datatype pyfloat = NegInf | Fin real | PosInf

fun fle :: "pyfloat \<Rightarrow> pyfloat \<Rightarrow> bool" where
  "fle NegInf _ = True"
| "fle (Fin x) NegInf = False"
| "fle (Fin x) (Fin y) = (x \<le> y)"
| "fle (Fin x) PosInf = True"
| "fle PosInf PosInf = True"
| "fle PosInf _ = False"

fun flt :: "pyfloat \<Rightarrow> pyfloat \<Rightarrow> bool" where
  "flt _ NegInf = False"
| "flt NegInf _ = True"
| "flt (Fin x) (Fin y) = (x < y)"
| "flt (Fin x) PosInf = True"
| "flt PosInf _ = False"

definition or_float :: "real option \<Rightarrow> pyfloat \<Rightarrow> pyfloat" where
  \<comment> \<open>\<^verbatim>\<open>v or d\<close>: \<^verbatim>\<open>None\<close> and \<^verbatim>\<open>0.0\<close> are false\<close>
  "or_float v d = (case v of None \<Rightarrow> d | Some x \<Rightarrow> if x = 0 then d else Fin x)"

section \<open>The AVI analysis\<close>

record AVIResult =
  bilt :: real
  niveau :: string
  totaal_woorden :: nat
  gem_woordlengte :: real
  pct_frequent :: real
  gem_zinslengte :: real
  lettergreep_verdeling :: "(nat \<times> nat) list"
  te_lange_woorden :: "(string \<times> nat) list"
  te_lange_zinnen :: "(string \<times> nat) list"

definition level_matches :: "avi_level \<Rightarrow> real \<Rightarrow> bool" where
  \<comment> \<open>the test in the loop of \<^verbatim>\<open>_bepaal_avi_niveau\<close>\<close>
  "level_matches level b =
     (let lo = or_float (bilt_min level) NegInf;
          hi = or_float (bilt_max level) PosInf
      in fle lo (Fin b) \<and> flt (Fin b) hi)"

fun scan_levels :: "avi_level list \<Rightarrow> real \<Rightarrow> string option" where
  \<comment> \<open>the \<^verbatim>\<open>for\<close> loop: the first level that matches, \<^term>\<open>None\<close> when the loop runs out\<close>
  "scan_levels [] b = None"
| "scan_levels (level # levels) b =
     (if level_matches level b then Some (avi_level.niveau level) else scan_levels levels b)"

definition bepaal_avi_niveau :: "real \<Rightarrow> string" where
  "bepaal_avi_niveau b =
     (case scan_levels AVI_LEVELS b of Some n \<Rightarrow> n | None \<Rightarrow> ''AVI-Plus'')"

definition tel_verdeling :: "string list \<Rightarrow> (nat \<times> nat) list" where
  \<comment> \<open>the loop that fills \<^verbatim>\<open>verdeling\<close>\<close>
  "tel_verdeling tokens =
     fold (\<lambda>woord verdeling.
             let lg = tel_lettergrepen woord
             in dict_set verdeling lg (dict_get verdeling lg 0 + 1))
          tokens []"

definition zoek_te_lange_woorden :: "nat \<Rightarrow> string list \<Rightarrow> (string \<times> nat) list" where
  \<comment> \<open>the loop under \<^verbatim>\<open>if max_lg\<close>; the state is the list and the set \<^verbatim>\<open>gezien\<close>\<close>
  "zoek_te_lange_woorden max_lg tokens =
     fst (fold (\<lambda>woord (acc, gezien).
                  if woord \<notin> gezien then
                    (let lg = tel_lettergrepen woord
                     in if lg > max_lg then (acc @ [(woord, lg)], insert woord gezien)
                        else (acc, gezien))
                  else (acc, gezien))
               tokens ([], {}))"

definition zoek_te_lange_zinnen :: "nat \<Rightarrow> string list \<Rightarrow> (string \<times> nat) list" where
  \<comment> \<open>the loop under \<^verbatim>\<open>if max_zin\<close>; an entry is the pair of \<^verbatim>\<open>'tekst'\<close> and \<^verbatim>\<open>'woorden'\<close>\<close>
  "zoek_te_lange_zinnen max_zin sentences =
     concat (map (\<lambda>s. let wc = length (tokenize s)
                      in if wc > max_zin then [(take 80 s, wc)] else [])
                 sentences)"

definition analyse_avi ::
  "string set \<Rightarrow> string \<Rightarrow> string option \<Rightarrow> py_error + AVIResult option" where
  "analyse_avi woordenlijst tekst target_niveau =
    (let tokens = tokenize tekst;
         sentences = split_sentences tekst
     in if tokens = [] \<or> length tokens < 10 then Inr None
     else
      let totaal = length tokens in
      py_bind (py_div (real (sum_list (map length tokens))) (real totaal)) (\<lambda>gem_woordlengte'.
      py_bind (if woordenlijst \<noteq> {} then
                 py_bind (py_div (real (length (filter (\<lambda>t. t \<in> woordenlijst) tokens)))
                                 (real totaal))
                   (\<lambda>q. Inr (q * 100))
               else Inr 70) (\<lambda>pct_frequent'.
      py_bind (if sentences \<noteq> [] then
                 (let sentence_lengths = map (\<lambda>s. length (tokenize s)) sentences
                  in py_div (real (sum_list sentence_lengths)) (real (length sentence_lengths)))
               else Inr (real totaal)) (\<lambda>gem_zinslengte'.
      let bilt' = BILT_INTERCEPT + BILT_COEF_FREQ * pct_frequent'
                    + BILT_COEF_WLEN * gem_woordlengte';
          niveau' = bepaal_avi_niveau bilt';
          verdeling = tel_verdeling tokens;
          (woorden, zinnen) =
            (case target_niveau of
               None \<Rightarrow> ([], [])
             | Some target \<Rightarrow>
                 if target = [] then ([], [])
                 else
                   let kenmerken = (case map_of AVI_KENMERKEN target of
                                      Some k \<Rightarrow> k | None \<Rightarrow> lege_kenmerken)
                   in ((case kenmerken.max_lettergrepen kenmerken of
                          None \<Rightarrow> []
                        | Some max_lg \<Rightarrow>
                            if max_lg \<noteq> 0 then zoek_te_lange_woorden max_lg tokens else []),
                       (case kenmerken.max_zinslengte kenmerken of
                          None \<Rightarrow> []
                        | Some max_zin \<Rightarrow>
                            if max_zin \<noteq> 0 then zoek_te_lange_zinnen max_zin sentences
                            else [])))
      in Inr (Some \<lparr>bilt = bilt', AVIResult.niveau = niveau', totaal_woorden = totaal,
                     gem_woordlengte = gem_woordlengte', pct_frequent = pct_frequent',
                     gem_zinslengte = gem_zinslengte', lettergreep_verdeling = verdeling,
                     te_lange_woorden = woorden, te_lange_zinnen = zinnen\<rparr>)))))"

section \<open>Suggestions\<close>

text \<open>
  A suggestion is one of the message templates of \<^verbatim>\<open>get_avi_suggesties\<close> and
  \<^verbatim>\<open>get_ref_suggesties\<close>, named after the bold heading of the message, with the values
  the template interpolates as arguments. The rendering of the numbers into text is not
  modelled.
\<close>

datatype suggestie =
    AVI_Kortere_woorden real real
  | Frequentere_woorden real real
  | Max_lettergrepen nat
  | AVI_Kortere_zinnen nat
  | Vermijd string
  | AVI_Langere_woorden real real
  | Minder_frequente_woorden real real
  | Nieuw_toegestaan string
  | Woordtypen string string
  | REF_Kortere_woorden real real
  | REF_Kortere_zinnen real real
  | Minder_lange_zinnen real real
  | Tip_eenvoudig
  | REF_Langere_woorden real real
  | REF_Langere_zinnen real real
  | Meer_lange_zinnen real real
  | Meer_signaalwoorden
  | Tip_verrijk

definition level_index :: "string \<Rightarrow> nat" where
  \<comment> \<open>\<^verbatim>\<open>next((i for i, l in enumerate(AVI_LEVELS) if l['niveau'] == n), 5)\<close>\<close>
  "level_index n =
     (case find (\<lambda>(i, l). avi_level.niveau l = n) (enumerate 0 AVI_LEVELS) of
        Some (i, l) \<Rightarrow> i
      | None \<Rightarrow> 5)"

definition als_str :: "string option \<Rightarrow> (string \<Rightarrow> suggestie) \<Rightarrow> suggestie list" where
  \<comment> \<open>\<^verbatim>\<open>if d.get(key): suggesties.append(...)\<close> for a text value\<close>
  "als_str v f = (case v of None \<Rightarrow> [] | Some s \<Rightarrow> if s \<noteq> [] then [f s] else [])"

definition als_nat :: "nat option \<Rightarrow> (nat \<Rightarrow> suggestie) \<Rightarrow> suggestie list" where
  \<comment> \<open>the same for a number: \<^verbatim>\<open>None\<close> and 0 are false\<close>
  "als_nat v f = (case v of None \<Rightarrow> [] | Some n \<Rightarrow> if n \<noteq> 0 then [f n] else [])"

definition get_avi_suggesties :: "AVIResult \<Rightarrow> string \<Rightarrow> py_error + suggestie list" where
  "get_avi_suggesties result target =
    (let current_idx = level_index (AVIResult.niveau result);
         target_idx = level_index target
     in py_bind (py_index AVI_LEVELS target_idx) (\<lambda>target_specs.
        let target_kenmerken = (case map_of AVI_KENMERKEN target of
                                  Some k \<Rightarrow> k | None \<Rightarrow> lege_kenmerken);
            suggesties =
              (if target_idx < current_idx then
                 (if gem_woordlengte result > gem_wlen target_specs
                  then [AVI_Kortere_woorden (gem_woordlengte result) (gem_wlen target_specs)]
                  else [])
                 @ (if pct_frequent result < pct_freq target_specs
                    then [Frequentere_woorden (pct_frequent result) (pct_freq target_specs)]
                    else [])
                 @ als_nat (kenmerken.max_lettergrepen target_kenmerken) Max_lettergrepen
                 @ als_nat (kenmerken.max_zinslengte target_kenmerken) AVI_Kortere_zinnen
                 @ als_str (verboden target_kenmerken) Vermijd
               else
                 (if gem_woordlengte result < gem_wlen target_specs
                  then [AVI_Langere_woorden (gem_woordlengte result) (gem_wlen target_specs)]
                  else [])
                 @ (if pct_frequent result > pct_freq target_specs
                    then [Minder_frequente_woorden (pct_frequent result) (pct_freq target_specs)]
                    else [])
                 @ als_str (nieuw target_kenmerken) Nieuw_toegestaan)
        in Inr (suggesties @ als_str (woordtypen target_kenmerken) (Woordtypen target))))"

section \<open>The reference analysis\<close>

record REFResult =
  niveau :: string
  score :: real
  confidence :: string
  totaal_woorden :: nat
  gem_woordlengte :: real
  gem_zinslengte :: real
  pct_frequent :: real
  long_sent_ratio :: real
  marker_diversity :: nat

definition tel_marker_types :: "string list \<Rightarrow> string set" where
  \<comment> \<open>the two nested loops that fill the set \<^verbatim>\<open>marker_types\<close>\<close>
  "tel_marker_types tokens =
     fold (\<lambda>t marker_types.
             fold (\<lambda>(mtype, markers) marker_types.
                     if t \<in> set markers then insert mtype marker_types else marker_types)
                  DISCOURSE_MARKERS marker_types)
          tokens {}"

definition bepaal_ref_niveau :: "real \<Rightarrow> string \<times> string" where
  \<comment> \<open>the \<^verbatim>\<open>if/elif/else\<close> of \<^verbatim>\<open>analyse_ref\<close> that sets \<^verbatim>\<open>niveau\<close> and \<^verbatim>\<open>confidence\<close>\<close>
  "bepaal_ref_niveau score' =
     (if score' < REF_CUTOFF_1F_2F then
        (''1F'', if score' < 1.0 then ''Hoog'' else ''Gemiddeld'')
      else if score' < REF_CUTOFF_2F_3F then
        (''2F'', if 1.5 \<le> score' \<and> score' \<le> 2.1 then ''Hoog'' else ''Gemiddeld (grensgebied)'')
      else
        (''3F'', if score' > 2.7 then ''Hoog'' else ''Gemiddeld''))"

definition analyse_ref :: "string set \<Rightarrow> string \<Rightarrow> py_error + REFResult option" where
  "analyse_ref woordenlijst tekst =
    (let tokens = tokenize tekst;
         sentences = split_sentences tekst
     in if tokens = [] \<or> length tokens < 20 then Inr None
     else
      let totaal = length tokens in
      py_bind (py_div (real (sum_list (map length tokens))) (real totaal)) (\<lambda>gem_woordlengte'.
      py_bind (if sentences \<noteq> [] then
                 (let sentence_lengths = map (\<lambda>s. length (tokenize s)) sentences
                  in py_bind (py_div (real (sum_list sentence_lengths))
                                     (real (length sentence_lengths)))
                       (\<lambda>g. Inr (sentence_lengths, g)))
               else Inr ([totaal], real totaal)) (\<lambda>(sentence_lengths, gem_zinslengte').
      py_bind (py_div (real (length (filter (\<lambda>l. l > 20) sentence_lengths)))
                      (real (length sentence_lengths))) (\<lambda>long_sent_ratio'.
      let long_sent_pct = long_sent_ratio' * 100;
          marker_types = tel_marker_types tokens;
          marker_diversity' = card marker_types
      in
      py_bind (if woordenlijst \<noteq> {} then
                 py_bind (py_div (real (length (filter (\<lambda>t. t \<in> woordenlijst) tokens)))
                                 (real totaal))
                   (\<lambda>q. Inr (q * 100))
               else Inr 65) (\<lambda>pct_frequent'.
      let score' = REF_INTERCEPT + REF_COEF_LONG_SENT * long_sent_pct
                     + REF_COEF_MARKER_DIV * real marker_diversity'
                     + REF_COEF_WL * gem_woordlengte';
          (niveau', confidence') = bepaal_ref_niveau score'
      in Inr (Some \<lparr>REFResult.niveau = niveau', score = score', confidence = confidence',
                     REFResult.totaal_woorden = totaal,
                     REFResult.gem_woordlengte = gem_woordlengte',
                     REFResult.gem_zinslengte = gem_zinslengte',
                     REFResult.pct_frequent = pct_frequent',
                     long_sent_ratio = long_sent_ratio',
                     marker_diversity = marker_diversity'\<rparr>))))))"

definition niveau_order :: "(string \<times> nat) list" where
  "niveau_order = [(''1F'', 1), (''2F'', 2), (''3F'', 3)]"

definition get_ref_suggesties :: "REFResult \<Rightarrow> string \<Rightarrow> py_error + suggestie list" where
  "get_ref_suggesties result target =
    py_bind (py_lookup REF_NIVEAU_INFO target) (\<lambda>target_info.
    py_bind (py_lookup niveau_order target) (\<lambda>target_order.
    py_bind (py_lookup niveau_order (REFResult.niveau result)) (\<lambda>current_order.
    Inr (if target_order < current_order then
           (if REFResult.gem_woordlengte result > wl_typical target_info + 0.2
            then [REF_Kortere_woorden (REFResult.gem_woordlengte result) (wl_typical target_info)]
            else [])
           @ (if REFResult.gem_zinslengte result > zl_typical target_info + 2
              then [REF_Kortere_zinnen (REFResult.gem_zinslengte result) (zl_typical target_info)]
              else [])
           @ (if long_sent_ratio result * 100 > long_sent_typical target_info + 5
              then [Minder_lange_zinnen (long_sent_ratio result * 100)
                      (long_sent_typical target_info)]
              else [])
           @ [Tip_eenvoudig]
         else
           (if REFResult.gem_woordlengte result < wl_typical target_info - 0.2
            then [REF_Langere_woorden (REFResult.gem_woordlengte result) (wl_typical target_info)]
            else [])
           @ (if REFResult.gem_zinslengte result < zl_typical target_info - 2
              then [REF_Langere_zinnen (REFResult.gem_zinslengte result) (zl_typical target_info)]
              else [])
           @ (if long_sent_ratio result * 100 < long_sent_typical target_info - 5
              then [Meer_lange_zinnen (long_sent_ratio result * 100)
                      (long_sent_typical target_info)]
              else [])
           @ (if marker_diversity result < 4 then [Meer_signaalwoorden] else [])
           @ [Tip_verrijk]))))"

section \<open>Definitions used to state the properties\<close>

text \<open>
  The number of maximal runs of vowels of a word, counted by position: a run starts at an
  index that holds a vowel and is either the first index or follows a character that is
  not a vowel.
\<close>

definition vowel_run_starts :: "string \<Rightarrow> nat list" where
  "vowel_run_starts w =
     filter (\<lambda>i. is_klinker (w ! i) \<and> (i = 0 \<or> \<not> is_klinker (w ! (i - 1)))) [0..<length w]"

definition vowel_runs :: "string \<Rightarrow> nat" where
  "vowel_runs w = length (vowel_run_starts w)"

text \<open>
  The same number by one pass over the word; the flag says whether the character before
  was a vowel. It links the loop of the source to \<^const>\<open>vowel_runs\<close>.
\<close>

fun runs_from :: "bool \<Rightarrow> string \<Rightarrow> nat" where
  "runs_from p [] = 0"
| "runs_from p (c # cs) = (if is_klinker c \<and> \<not> p then 1 else 0) + runs_from (is_klinker c) cs"

text \<open>
  The categories of \<^const>\<open>DISCOURSE_MARKERS\<close> of which at least one token is a marker, and the
  tokens that are a marker of some category.
\<close>

definition categories_hit :: "string list \<Rightarrow> (string \<times> string list) list" where
  "categories_hit tokens =
     filter (\<lambda>(mtype, markers). list_ex (\<lambda>t. t \<in> set markers) tokens) DISCOURSE_MARKERS"

definition is_marker :: "string \<Rightarrow> bool" where
  "is_marker t = list_ex (\<lambda>(mtype, markers). t \<in> set markers) DISCOURSE_MARKERS"

text \<open>
  The direction of a message, read off its text: shorter, fewer and forbidden things
  simplify a text; longer, more and newly allowed things enrich it. The line on word types
  belongs to neither.
\<close>

fun is_vereenvoudigen :: "suggestie \<Rightarrow> bool" where
  "is_vereenvoudigen (AVI_Kortere_woorden _ _) = True"
| "is_vereenvoudigen (Frequentere_woorden _ _) = True"
| "is_vereenvoudigen (Max_lettergrepen _) = True"
| "is_vereenvoudigen (AVI_Kortere_zinnen _) = True"
| "is_vereenvoudigen (Vermijd _) = True"
| "is_vereenvoudigen (REF_Kortere_woorden _ _) = True"
| "is_vereenvoudigen (REF_Kortere_zinnen _ _) = True"
| "is_vereenvoudigen (Minder_lange_zinnen _ _) = True"
| "is_vereenvoudigen Tip_eenvoudig = True"
| "is_vereenvoudigen _ = False"

fun is_verrijken :: "suggestie \<Rightarrow> bool" where
  "is_verrijken (AVI_Langere_woorden _ _) = True"
| "is_verrijken (Minder_frequente_woorden _ _) = True"
| "is_verrijken (Nieuw_toegestaan _) = True"
| "is_verrijken (REF_Langere_woorden _ _) = True"
| "is_verrijken (REF_Langere_zinnen _ _) = True"
| "is_verrijken (Meer_lange_zinnen _ _) = True"
| "is_verrijken Meer_signaalwoorden = True"
| "is_verrijken Tip_verrijk = True"
| "is_verrijken _ = False"

fun is_woordtypen :: "suggestie \<Rightarrow> bool" where
  "is_woordtypen (Woordtypen _ _) = True"
| "is_woordtypen _ = False"

text \<open>
  A gap between a result and the profile of the target, in the direction of the advice
  (\<open>True\<close>: the target is below the current level). For the AVI scale the average word
  length and the percentage of frequent words are compared with the target's values; for
  the reference scale the tolerances are 0.2 characters of word length, 2 tokens of
  sentence length, 5 points of the percentage of long sentences and, when enriching, a
  floor of 4 marker categories.
\<close>

definition avi_gap :: "AVIResult \<Rightarrow> avi_level \<Rightarrow> bool \<Rightarrow> bool" where
  "avi_gap r specs omlaag =
     (if omlaag
      then AVIResult.gem_woordlengte r > gem_wlen specs \<or> AVIResult.pct_frequent r < pct_freq specs
      else AVIResult.gem_woordlengte r < gem_wlen specs \<or> AVIResult.pct_frequent r > pct_freq specs)"

definition ref_gap :: "REFResult \<Rightarrow> niveau_info \<Rightarrow> bool \<Rightarrow> bool" where
  "ref_gap q info omlaag =
     (if omlaag
      then REFResult.gem_woordlengte q > wl_typical info + 0.2
           \<or> REFResult.gem_zinslengte q > zl_typical info + 2
           \<or> long_sent_ratio q * 100 > long_sent_typical info + 5
      else REFResult.gem_woordlengte q < wl_typical info - 0.2
           \<or> REFResult.gem_zinslengte q < zl_typical info - 2
           \<or> long_sent_ratio q * 100 < long_sent_typical info - 5
           \<or> marker_diversity q < 4)"

text \<open>
  The lines of the AVI advice that do not depend on the result: the caps and the forbidden
  structures of the target when simplifying, its newly allowed structures when enriching,
  and then the line on the word types of the target. Each is there when the target has an
  entry in \<^const>\<open>AVI_KENMERKEN\<close> with a value for it.
\<close>

definition avi_vaste_regels :: "string \<Rightarrow> bool \<Rightarrow> suggestie list" where
  "avi_vaste_regels target omlaag =
     (let k = (case map_of AVI_KENMERKEN target of Some k \<Rightarrow> k | None \<Rightarrow> lege_kenmerken)
      in (if omlaag
          then als_nat (kenmerken.max_lettergrepen k) Max_lettergrepen
               @ als_nat (kenmerken.max_zinslengte k) AVI_Kortere_zinnen
               @ als_str (verboden k) Vermijd
          else als_str (nieuw k) Nieuw_toegestaan)
         @ als_str (woordtypen k) (Woordtypen target))"

definition ref_tip :: "bool \<Rightarrow> suggestie" where
  \<comment> \<open>the closing tip of the reference advice, by direction\<close>
  "ref_tip omlaag = (if omlaag then Tip_eenvoudig else Tip_verrijk)"

text \<open>Example inputs.\<close>

definition voorbeeld_tekst_10 :: string where
  "voorbeeld_tekst_10 = ''boom boom boom boom boom boom boom boom roos roos''"

definition voorbeeld_tekst_9 :: string where
  "voorbeeld_tekst_9 = ''boom boom boom boom boom boom boom boom roos''"

definition voorbeeld_tekst_20 :: string where
  "voorbeeld_tekst_20 =
     ''Ik ga naar huis omdat het laat is, maar mijn zus wil nog niet weg van het mooie grote feest''"

definition voorbeeld_tekst_19 :: string where
  "voorbeeld_tekst_19 =
     ''Ik ga naar huis omdat het laat is, maar mijn zus wil nog niet weg van het mooie feest''"

definition voorbeeld_ref_2F :: REFResult where
  \<comment> \<open>a result whose features are the typical values of 2F, with all five marker categories\<close>
  "voorbeeld_ref_2F =
     \<lparr>REFResult.niveau = ''2F'', score = 1.8, confidence = ''Hoog'',
      REFResult.totaal_woorden = 100, REFResult.gem_woordlengte = 4.91,
      REFResult.gem_zinslengte = 14.4, REFResult.pct_frequent = 65,
      long_sent_ratio = 0.15, marker_diversity = 5\<rparr>"

definition voorbeeld_avi_M5 :: AVIResult where
  \<comment> \<open>a result whose features are the typical values of AVI-M5\<close>
  "voorbeeld_avi_M5 =
     \<lparr>bilt = 65, AVIResult.niveau = ''AVI-M5'', AVIResult.totaal_woorden = 100,
      AVIResult.gem_woordlengte = 4.5, AVIResult.pct_frequent = 75,
      AVIResult.gem_zinslengte = 8, lettergreep_verdeling = [(1, 60), (2, 40)],
      te_lange_woorden = [], te_lange_zinnen = []\<rparr>"

section \<open>Properties of the AVI classification and of the two analyses\<close>

lemmas avi_table_defs = AVI_LEVELS_def mk_level_def level_matches_def or_float_def

lemma bepaal_avi_niveau_chain:
  "bepaal_avi_niveau b =
     (if b < 56 then ''AVI-M3'' else if b < 60 then ''AVI-E3'' else if b < 62 then ''AVI-M4''
      else if b < 64.5 then ''AVI-E4'' else if b < 66.5 then ''AVI-M5''
      else if b < 68 then ''AVI-E5'' else if b < 71 then ''AVI-M6''
      else if b < 73 then ''AVI-E6'' else if b < 75 then ''AVI-M7''
      else if b < 77 then ''AVI-E7'' else ''AVI-Plus'')"
  by (simp add: bepaal_avi_niveau_def avi_table_defs)

lemma scan_levels_total: "scan_levels AVI_LEVELS b \<noteq> None"
  by (simp add: avi_table_defs)

lemma matching_levels:
  "map avi_level.niveau (filter (\<lambda>l. level_matches l b) AVI_LEVELS) = [bepaal_avi_niveau b]"
  unfolding bepaal_avi_niveau_chain
  by (simp add: avi_table_defs)

lemma level_matches_interval:
  "list_all (\<lambda>l. level_matches l b =
       ((case bilt_min l of None \<Rightarrow> True | Some lo \<Rightarrow> lo \<le> b)
        \<and> (case bilt_max l of None \<Rightarrow> True | Some hi \<Rightarrow> b < hi))) AVI_LEVELS"
  by (simp add: avi_table_defs)

lemma analyse_avi_None_iff:
  "analyse_avi L tekst tg = Inr None \<longleftrightarrow> length (tokenize tekst) < 10"
  by (auto simp: analyse_avi_def Let_def py_bind_def py_div_def split: prod.splits)

lemma analyse_avi_returns:
  "10 \<le> length (tokenize tekst) \<Longrightarrow> \<exists>r. analyse_avi L tekst tg = Inr (Some r)"
  by (auto simp: analyse_avi_def Let_def py_bind_def py_div_def split: prod.splits)

lemma analyse_avi_fields:
  assumes "analyse_avi L tekst tg = Inr (Some r)"
  shows "10 \<le> length (tokenize tekst)"
    and "AVIResult.totaal_woorden r = length (tokenize tekst)"
    and "AVIResult.gem_woordlengte r =
           real (sum_list (map length (tokenize tekst))) / real (length (tokenize tekst))"
    and "AVIResult.pct_frequent r =
           (if L \<noteq> {} then real (length (filter (\<lambda>t. t \<in> L) (tokenize tekst)))
                               / real (length (tokenize tekst)) * 100
            else 70)"
    and "bilt r = BILT_INTERCEPT + BILT_COEF_FREQ * AVIResult.pct_frequent r
                    + BILT_COEF_WLEN * AVIResult.gem_woordlengte r"
    and "AVIResult.niveau r = bepaal_avi_niveau (bilt r)"
    and "lettergreep_verdeling r = tel_verdeling (tokenize tekst)"
  using assms
  by (auto simp: analyse_avi_def Let_def py_bind_def py_div_def split: prod.splits if_splits)

lemma analyse_ref_None_iff:
  "analyse_ref L tekst = Inr None \<longleftrightarrow> length (tokenize tekst) < 20"
  by (auto simp: analyse_ref_def Let_def py_bind_def py_div_def split: prod.splits)

lemma analyse_ref_returns:
  "20 \<le> length (tokenize tekst) \<Longrightarrow> \<exists>r. analyse_ref L tekst = Inr (Some r)"
  by (auto simp: analyse_ref_def Let_def py_bind_def py_div_def split: prod.splits)

lemma tokenize_voorbeeld_10:
  "tokenize voorbeeld_tekst_10 =
     [''boom'', ''boom'', ''boom'', ''boom'', ''boom'', ''boom'', ''boom'', ''boom'',
      ''roos'', ''roos'']"
  by code_simp

lemma tokenize_voorbeeld_9:
  "tokenize voorbeeld_tekst_9 =
     [''boom'', ''boom'', ''boom'', ''boom'', ''boom'', ''boom'', ''boom'', ''boom'', ''roos'']"
  by code_simp

lemma tokenize_voorbeeld_19:
  "tokenize voorbeeld_tekst_19 =
     [''ik'', ''ga'', ''naar'', ''huis'', ''omdat'', ''het'', ''laat'', ''is'', ''maar'',
      ''mijn'', ''zus'', ''wil'', ''nog'', ''niet'', ''weg'', ''van'', ''het'', ''mooie'',
      ''feest'']"
  by code_simp

lemma tokenize_voorbeeld_20:
  "tokenize voorbeeld_tekst_20 =
     [''ik'', ''ga'', ''naar'', ''huis'', ''omdat'', ''het'', ''laat'', ''is'', ''maar'',
      ''mijn'', ''zus'', ''wil'', ''nog'', ''niet'', ''weg'', ''van'', ''het'', ''mooie'',
      ''grote'', ''feest'']"
  by code_simp

text \<open>
  C1, as stated, fails: with \<open>pct_frequent = 80\<close> and \<open>gem_woordlengte = 4.0\<close> the formula
  gives 43.21 - 18.4 + 34.52 = 59.33, not 59.37.
\<close>

theorem bilt_example_counterexample:
  "BILT_INTERCEPT + BILT_COEF_FREQ * 80 + BILT_COEF_WLEN * 4.0 \<noteq> 59.37"
  by (simp add: BILT_INTERCEPT_def BILT_COEF_FREQ_def BILT_COEF_WLEN_def)

text \<open>
  C1, amended: with \<open>pct_frequent = 80\<close> and \<open>gem_woordlengte = 4.0\<close> the BILT score is
  59.33, which \<^const>\<open>bepaal_avi_niveau\<close> classifies as AVI-E3; every result of
  \<^const>\<open>analyse_avi\<close> with these two features has this score and this level.
\<close>

theorem bilt_example:
  "BILT_INTERCEPT + BILT_COEF_FREQ * 80 + BILT_COEF_WLEN * 4.0 = 59.33
   \<and> bepaal_avi_niveau 59.33 = ''AVI-E3''
   \<and> (analyse_avi L tekst tg = Inr (Some r) \<and> AVIResult.pct_frequent r = 80
        \<and> AVIResult.gem_woordlengte r = 4.0
      \<longrightarrow> bilt r = 59.33 \<and> AVIResult.niveau r = ''AVI-E3'')"
proof -
  have f: "BILT_INTERCEPT + BILT_COEF_FREQ * 80 + BILT_COEF_WLEN * 4.0 = 59.33"
    by (simp add: BILT_INTERCEPT_def BILT_COEF_FREQ_def BILT_COEF_WLEN_def)
  have n: "bepaal_avi_niveau 59.33 = ''AVI-E3''"
    by (simp add: bepaal_avi_niveau_chain)
  have "bilt r = 59.33 \<and> AVIResult.niveau r = ''AVI-E3''"
    if a: "analyse_avi L tekst tg = Inr (Some r)"
      and p: "AVIResult.pct_frequent r = 80" and w: "AVIResult.gem_woordlengte r = 4.0"
  proof -
    have "bilt r = BILT_INTERCEPT + BILT_COEF_FREQ * 80 + BILT_COEF_WLEN * 4.0"
      unfolding analyse_avi_fields(5) [OF a] p w ..
    then have b: "bilt r = 59.33"
      unfolding f .
    have "AVIResult.niveau r = ''AVI-E3''"
      unfolding analyse_avi_fields(6) [OF a] b by (rule n)
    with b show ?thesis ..
  qed
  with f n show ?thesis by blast
qed

theorem bilt_example_witness:
  "\<exists>r. analyse_avi {''boom''} voorbeeld_tekst_10 None = Inr (Some r)
       \<and> AVIResult.pct_frequent r = 80 \<and> AVIResult.gem_woordlengte r = 4.0
       \<and> bilt r = 59.33 \<and> AVIResult.niveau r = ''AVI-E3''"
proof -
  obtain r where r: "analyse_avi {''boom''} voorbeeld_tekst_10 None = Inr (Some r)"
    using analyse_avi_returns [of voorbeeld_tekst_10 "{''boom''}" None]
    by (auto simp: tokenize_voorbeeld_10)
  have p: "AVIResult.pct_frequent r = 80"
    using analyse_avi_fields(4) [OF r] by (simp add: tokenize_voorbeeld_10)
  have w: "AVIResult.gem_woordlengte r = 4.0"
    using analyse_avi_fields(3) [OF r] by (simp add: tokenize_voorbeeld_10)
  show ?thesis
    using r p w bilt_example [of "{''boom''}" voorbeeld_tekst_10 None r] by blast
qed


text \<open>
  C2: the AVI table has eleven levels; for every real BILT score exactly one level of the
  table matches, the scan returns that level, so the default after the loop is never
  used; a level matches when its minimum, if present, is at most the score and the score
  is below its maximum, if present; the first level is assigned exactly to the scores
  below 56 and the last exactly to the scores from 77 on.
\<close>

theorem avi_band_total_unique:
  "length AVI_LEVELS = 11
   \<and> map avi_level.niveau (filter (\<lambda>l. level_matches l b) AVI_LEVELS) = [bepaal_avi_niveau b]
   \<and> scan_levels AVI_LEVELS b = Some (bepaal_avi_niveau b)
   \<and> list_all (\<lambda>l. level_matches l b =
        ((case bilt_min l of None \<Rightarrow> True | Some lo \<Rightarrow> lo \<le> b)
         \<and> (case bilt_max l of None \<Rightarrow> True | Some hi \<Rightarrow> b < hi))) AVI_LEVELS
   \<and> (bepaal_avi_niveau b = ''AVI-M3'' \<longleftrightarrow> b < 56)
   \<and> (bepaal_avi_niveau b = ''AVI-Plus'' \<longleftrightarrow> 77 \<le> b)"
proof -
  have n: "length AVI_LEVELS = 11"
    by (simp add: AVI_LEVELS_def)
  have s: "scan_levels AVI_LEVELS b = Some (bepaal_avi_niveau b)"
    using scan_levels_total [of b] by (auto simp: bepaal_avi_niveau_def)
  have lo: "bepaal_avi_niveau b = ''AVI-M3'' \<longleftrightarrow> b < 56"
    by (simp add: bepaal_avi_niveau_chain)
  have hi: "bepaal_avi_niveau b = ''AVI-Plus'' \<longleftrightarrow> 77 \<le> b"
    by (simp add: bepaal_avi_niveau_chain)
  from n s lo hi matching_levels [of b] level_matches_interval [of b]
  show ?thesis by blast
qed

theorem avi_band_total_unique_witness:
  "map avi_level.niveau (filter (\<lambda>l. level_matches l 77) AVI_LEVELS) = [''AVI-Plus'']
   \<and> scan_levels AVI_LEVELS 77 = Some ''AVI-Plus''
   \<and> bepaal_avi_niveau 55.99 = ''AVI-M3''"
proof -
  have a: "bepaal_avi_niveau 77 = ''AVI-Plus''"
    using avi_band_total_unique [of 77] by simp
  have b: "bepaal_avi_niveau 55.99 = ''AVI-M3''"
    using avi_band_total_unique [of "55.99"] by simp
  show ?thesis
    using avi_band_total_unique [of 77] a b by simp
qed

text \<open>
  C3: \<^const>\<open>analyse_avi\<close> returns no result exactly when the tokenizer gives fewer than 10
  tokens and \<^const>\<open>analyse_ref\<close> exactly when it gives fewer than 20; from 10 (from 20)
  tokens on, so also at exactly the threshold, each returns a result and raises nothing.
\<close>

theorem analyse_threshold:
  "(analyse_avi L tekst tg = Inr None \<longleftrightarrow> length (tokenize tekst) < 10)
   \<and> (10 \<le> length (tokenize tekst) \<longrightarrow> (\<exists>r. analyse_avi L tekst tg = Inr (Some r)))
   \<and> (analyse_ref L tekst = Inr None \<longleftrightarrow> length (tokenize tekst) < 20)
   \<and> (20 \<le> length (tokenize tekst) \<longrightarrow> (\<exists>r. analyse_ref L tekst = Inr (Some r)))"
  using analyse_avi_None_iff [of L tekst tg] analyse_avi_returns [of tekst L tg]
    analyse_ref_None_iff [of L tekst] analyse_ref_returns [of tekst L]
  by blast

theorem analyse_threshold_witness:
  "length (tokenize voorbeeld_tekst_10) = 10
   \<and> (\<exists>r. analyse_avi {} voorbeeld_tekst_10 None = Inr (Some r))
   \<and> length (tokenize voorbeeld_tekst_9) = 9
   \<and> analyse_avi {} voorbeeld_tekst_9 None = Inr None
   \<and> length (tokenize voorbeeld_tekst_20) = 20
   \<and> (\<exists>r. analyse_ref {} voorbeeld_tekst_20 = Inr (Some r))
   \<and> length (tokenize voorbeeld_tekst_19) = 19
   \<and> analyse_ref {} voorbeeld_tekst_19 = Inr None"
  using analyse_threshold [of "{}" voorbeeld_tekst_10 None]
    analyse_threshold [of "{}" voorbeeld_tekst_9 None]
    analyse_threshold [of "{}" voorbeeld_tekst_20 None]
    analyse_threshold [of "{}" voorbeeld_tekst_19 None]
  by (simp add: tokenize_voorbeeld_10 tokenize_voorbeeld_9 tokenize_voorbeeld_20
        tokenize_voorbeeld_19)

section \<open>The syllable counter\<close>

lemma runs_from_dropWhile:
  "runs_from True cs = runs_from False (dropWhile is_klinker cs)"
  by (induction cs) auto

lemma lettergrepen_loop_runs: "lettergrepen_loop w n = n + runs_from False w"
  by (induction w n rule: lettergrepen_loop.induct) (auto simp: runs_from_dropWhile)

lemma run_starts_count:
  "length (filter (\<lambda>i. is_klinker (w ! i) \<and> (if i = 0 then \<not> p else \<not> is_klinker (w ! (i - 1))))
             [0..<length w]) = runs_from p w"
proof (induction w arbitrary: p)
  case Nil
  show ?case by simp
next
  case (Cons c cs)
  have upt: "[0..<length (c # cs)] = 0 # map Suc [0..<length cs]"
    by (simp add: upt_conv_Cons map_Suc_upt del: upt_Suc)
  have tl: "filter (\<lambda>i. is_klinker ((c # cs) ! i)
                \<and> (if i = 0 then \<not> p else \<not> is_klinker ((c # cs) ! (i - 1))))
              (map Suc [0..<length cs])
          = map Suc (filter (\<lambda>j. is_klinker (cs ! j)
                \<and> (if j = 0 then \<not> is_klinker c else \<not> is_klinker (cs ! (j - 1))))
              [0..<length cs])"
    unfolding filter_map
    by (rule arg_cong [where f = "map Suc"], rule filter_cong) (auto simp: nth_Cons')
  show ?case
    unfolding upt using Cons.IH [of "is_klinker c"]
    by (simp add: tl del: upt_Suc)
qed

lemma vowel_runs_runs_from: "vowel_runs w = runs_from False w"
proof -
  have "(\<lambda>i. is_klinker (w ! i) \<and> (i = 0 \<or> \<not> is_klinker (w ! (i - 1))))
      = (\<lambda>i. is_klinker (w ! i) \<and> (if i = 0 then \<not> False else \<not> is_klinker (w ! (i - 1))))"
    by auto
  then show ?thesis
    unfolding vowel_runs_def vowel_run_starts_def using run_starts_count [of w False] by simp
qed

lemma space_not_klinker: "is_space_char c \<Longrightarrow> \<not> is_klinker c"
  by (auto simp: is_space_char_def is_klinker_def klinkers_def Let_def)

lemma runs_from_dropWhile_space:
  "runs_from False (dropWhile is_space_char w) = runs_from False w"
  by (induction w) (auto simp: space_not_klinker)

lemma runs_from_append_space:
  "list_all is_space_char ys \<Longrightarrow> runs_from p (xs @ ys) = runs_from p xs"
proof (induction xs arbitrary: p)
  case Nil
  then show ?case by (induction ys arbitrary: p) (auto simp: space_not_klinker)
next
  case (Cons x xs)
  then show ?case by simp
qed

lemma strip_decomp:
  "\<exists>ys. list_all is_space_char ys \<and> dropWhile is_space_char w = strip w @ ys"
proof -
  let ?d = "dropWhile is_space_char w"
  have "rev ?d = takeWhile is_space_char (rev ?d) @ dropWhile is_space_char (rev ?d)"
    by simp
  then have "?d = rev (dropWhile is_space_char (rev ?d)) @ rev (takeWhile is_space_char (rev ?d))"
    by (metis rev_append rev_rev_ident)
  moreover have "list_all is_space_char (rev (takeWhile is_space_char (rev ?d)))"
    by (simp add: list_all_iff) (meson set_takeWhileD)
  ultimately show ?thesis unfolding strip_def by blast
qed

lemma runs_from_strip: "runs_from False (strip w) = runs_from False w"
proof -
  obtain ys where ys: "list_all is_space_char ys" "dropWhile is_space_char w = strip w @ ys"
    using strip_decomp by blast
  have "runs_from False (strip w) = runs_from False (strip w @ ys)"
    using ys(1) by (simp add: runs_from_append_space)
  also have "\<dots> = runs_from False w"
    using ys(2) runs_from_dropWhile_space [of w] by simp
  finally show ?thesis .
qed

lemma list_all_dropWhile: "list_all P (dropWhile P w) = list_all P w"
  by (induction w) auto

lemma strip_Nil_iff: "strip w = [] \<longleftrightarrow> list_all is_space_char w"
proof -
  have "strip w = [] \<longleftrightarrow> list_all is_space_char (dropWhile is_space_char w)"
    by (simp add: strip_def dropWhile_eq_Nil_conv list_all_iff)
  then show ?thesis by (simp add: list_all_dropWhile)
qed

lemma is_space_lower_char: "is_space_char (lower_char c) = is_space_char c"
  by (auto simp: is_space_char_def lower_char_def Let_def)

lemma strip_lower_Nil_iff: "strip (lower w) = [] \<longleftrightarrow> list_all is_space_char w"
  by (simp add: strip_Nil_iff lower_def list_all_iff is_space_lower_char)

lemma tel_lettergrepen_runs:
  "tel_lettergrepen w = (if list_all is_space_char w then 0 else max 1 (vowel_runs (lower w)))"
  by (simp add: tel_lettergrepen_def Let_def strip_lower_Nil_iff lettergrepen_loop_runs
        runs_from_strip vowel_runs_runs_from)

lemma runs_from_no_klinker: "list_all (\<lambda>c. \<not> is_klinker c) w \<Longrightarrow> runs_from p w = 0"
  by (induction w arbitrary: p) auto

lemma vowel_runs_no_klinker:
  "list_all (\<lambda>c. \<not> is_klinker c) w \<Longrightarrow> vowel_runs w = 0"
  by (simp add: vowel_runs_runs_from runs_from_no_klinker)

text \<open>
  C7, as stated, fails: the word that is one space is not empty and has no vowel run, and
  \<^const>\<open>tel_lettergrepen\<close> returns 0 for it, not 1, because the word is stripped first.
  The vowels of the source hold the accented forms of a, e, i, o and u, not those of y: the
  y with an acute accent ends a run and starts none.
\<close>

theorem tel_lettergrepen_counterexample:
  "'' '' \<noteq> [] \<and> vowel_runs (lower '' '') = 0 \<and> tel_lettergrepen '' '' = 0
   \<and> \<not> is_klinker (CHR 0xFD) \<and> tel_lettergrepen (''ab'' @ [CHR 0xFD] @ ''b'') = 1"
proof -
  have "vowel_runs (lower '' '') = 0" by code_simp
  moreover have "tel_lettergrepen '' '' = 0" by code_simp
  moreover have "\<not> is_klinker (CHR 0xFD)" by code_simp
  moreover have "tel_lettergrepen (''ab'' @ [CHR 0xFD] @ ''b'') = 1" by code_simp
  ultimately show ?thesis by simp
qed

text \<open>
  C7, amended: \<^const>\<open>tel_lettergrepen\<close> returns the number of maximal runs of vowels (the
  characters of \<^const>\<open>klinkers\<close>) of the lowercased word, except that a word without a vowel
  run returns 1, and a word that is empty or holds only whitespace returns 0. So "ik"
  gives 1, "computer" gives 3, the empty string gives 0, and a word that is not empty and
  holds neither whitespace nor a vowel in either case gives 1.
\<close>

theorem tel_lettergrepen_vowel_runs:
  "tel_lettergrepen w = (if list_all is_space_char w then 0 else max 1 (vowel_runs (lower w)))
   \<and> tel_lettergrepen ''ik'' = 1 \<and> tel_lettergrepen ''computer'' = 3
   \<and> tel_lettergrepen [] = 0
   \<and> (w \<noteq> [] \<and> list_all (\<lambda>c. \<not> is_space_char c \<and> \<not> is_klinker (lower_char c)) w
        \<longrightarrow> tel_lettergrepen w = 1)"
proof -
  have e1: "tel_lettergrepen ''ik'' = 1" by code_simp
  have e2: "tel_lettergrepen ''computer'' = 3" by code_simp
  have e3: "tel_lettergrepen [] = 0" by code_simp
  have c: "tel_lettergrepen w = 1"
    if ne: "w \<noteq> []"
      and cons: "list_all (\<lambda>c. \<not> is_space_char c \<and> \<not> is_klinker (lower_char c)) w"
  proof -
    from ne cons have "\<not> list_all is_space_char w"
      by (cases w) auto
    moreover from cons have "list_all (\<lambda>c. \<not> is_klinker c) (lower w)"
      by (simp add: lower_def list_all_iff)
    ultimately show ?thesis
      by (simp add: tel_lettergrepen_runs vowel_runs_no_klinker)
  qed
  from e1 e2 e3 c tel_lettergrepen_runs [of w] show ?thesis by blast
qed

theorem tel_lettergrepen_vowel_runs_witness:
  "''Strng'' \<noteq> []
   \<and> list_all (\<lambda>c. \<not> is_space_char c \<and> \<not> is_klinker (lower_char c)) ''Strng''
   \<and> tel_lettergrepen ''Strng'' = 1
   \<and> vowel_runs (lower ''Ideeen'') = 2 \<and> tel_lettergrepen ''Ideeen'' = 2"
proof -
  have h: "list_all (\<lambda>c. \<not> is_space_char c \<and> \<not> is_klinker (lower_char c)) ''Strng''"
    by code_simp
  have s: "\<not> list_all is_space_char ''Ideeen''"
    by code_simp
  have v: "vowel_runs (lower ''Ideeen'') = 2"
    by code_simp
  show ?thesis
    using h s v tel_lettergrepen_vowel_runs [of "''Strng''"]
      tel_lettergrepen_vowel_runs [of "''Ideeen''"]
    by simp
qed

section \<open>The syllable histogram\<close>

lemma dict_bump_sum:
  "sum_list (map snd (dict_set d k (Suc (dict_get d k 0)))) = Suc (sum_list (map snd d))"
  by (induction d) auto

lemma dict_set_keys: "fst ` set (dict_set d k v) = insert k (fst ` set d)"
proof (induction d)
  case Nil
  show ?case by simp
next
  case (Cons a d)
  obtain k' v' where a: "a = (k', v')"
    by (cases a)
  show ?case
    by (cases "k' = k") (simp_all add: a Cons.IH insert_commute)
qed

lemma dict_set_distinct: "distinct (map fst d) \<Longrightarrow> distinct (map fst (dict_set d k v))"
proof (induction d)
  case Nil
  show ?case by simp
next
  case (Cons a d)
  obtain k' v' where a: "a = (k', v')"
    by (cases a)
  from Cons.prems have k': "k' \<notin> fst ` set d" and d: "distinct (map fst d)"
    by (simp_all add: a)
  show ?case
  proof (cases "k' = k")
    case True
    with k' d show ?thesis by (simp add: a)
  next
    case False
    with k' have "k' \<notin> fst ` set (dict_set d k v)"
      by (simp add: dict_set_keys)
    with False Cons.IH [OF d] show ?thesis by (simp add: a)
  qed
qed

lemma verdeling_fold:
  "sum_list (map snd (fold (\<lambda>woord verdeling.
        let lg = tel_lettergrepen woord
        in dict_set verdeling lg (dict_get verdeling lg 0 + 1)) tokens acc))
     = sum_list (map snd acc) + length tokens
   \<and> (distinct (map fst acc) \<longrightarrow> distinct (map fst (fold (\<lambda>woord verdeling.
        let lg = tel_lettergrepen woord
        in dict_set verdeling lg (dict_get verdeling lg 0 + 1)) tokens acc)))"
  by (induction tokens arbitrary: acc) (simp_all add: Let_def dict_bump_sum dict_set_distinct)

lemma tel_verdeling_sum:
  "sum_list (map snd (tel_verdeling tokens)) = length tokens"
  "distinct (map fst (tel_verdeling tokens))"
  using verdeling_fold [of tokens "[]"] by (simp_all add: tel_verdeling_def)

text \<open>
  C10: in every result of \<^const>\<open>analyse_avi\<close> the values of \<^const>\<open>lettergreep_verdeling\<close> (a
  dictionary: its keys are distinct) add up to \<^const>\<open>AVIResult.totaal_woorden\<close>, which is the number
  of tokens of the text and at least 10.
\<close>

theorem verdeling_sum_totaal:
  assumes "analyse_avi L tekst tg = Inr (Some r)"
  shows "sum_list (map snd (lettergreep_verdeling r)) = AVIResult.totaal_woorden r
         \<and> distinct (map fst (lettergreep_verdeling r))
         \<and> AVIResult.totaal_woorden r = length (tokenize tekst)
         \<and> 10 \<le> AVIResult.totaal_woorden r"
  using analyse_avi_fields(1,2,7) [OF assms] tel_verdeling_sum [of "tokenize tekst"]
  by simp

theorem verdeling_sum_totaal_witness:
  "\<exists>r. analyse_avi {} voorbeeld_tekst_10 (Some ''AVI-M3'') = Inr (Some r)
       \<and> sum_list (map snd (lettergreep_verdeling r)) = 10
       \<and> AVIResult.totaal_woorden r = 10"
proof -
  obtain r where r: "analyse_avi {} voorbeeld_tekst_10 (Some ''AVI-M3'') = Inr (Some r)"
    using analyse_avi_returns [of voorbeeld_tekst_10 "{}" "Some ''AVI-M3''"]
    by (auto simp: tokenize_voorbeeld_10)
  show ?thesis
    using r verdeling_sum_totaal [OF r] by (auto simp: tokenize_voorbeeld_10)
qed

section \<open>Discourse markers\<close>

lemma inner_fold_markers:
  "fold (\<lambda>(mtype, markers) acc. if t \<in> set markers then insert mtype acc else acc) D acc
     = acc \<union> {m. \<exists>ms. (m, ms) \<in> set D \<and> t \<in> set ms}"
  by (induction D arbitrary: acc) (auto split: prod.splits)

lemma outer_fold_markers:
  "fold (\<lambda>t acc. fold (\<lambda>(mtype, markers) acc.
                         if t \<in> set markers then insert mtype acc else acc) D acc) tokens acc
     = acc \<union> {m. \<exists>ms. (m, ms) \<in> set D \<and> (\<exists>t \<in> set tokens. t \<in> set ms)}"
proof (induction tokens arbitrary: acc)
  case Nil
  show ?case by simp
next
  case (Cons t ts)
  let ?F = "\<lambda>t acc. fold (\<lambda>(mtype, markers) acc.
                         if t \<in> set markers then insert mtype acc else acc) D acc"
  have "fold ?F (t # ts) acc = fold ?F ts (?F t acc)"
    by simp
  also have "\<dots> = ?F t acc \<union> {m. \<exists>ms. (m, ms) \<in> set D \<and> (\<exists>t \<in> set ts. t \<in> set ms)}"
    by (rule Cons.IH)
  also have "?F t acc = acc \<union> {m. \<exists>ms. (m, ms) \<in> set D \<and> t \<in> set ms}"
    by (rule inner_fold_markers)
  finally show ?case by auto
qed

lemma tel_marker_types_set:
  "tel_marker_types tokens
     = {m. \<exists>ms. (m, ms) \<in> set DISCOURSE_MARKERS \<and> (\<exists>t \<in> set tokens. t \<in> set ms)}"
  unfolding tel_marker_types_def outer_fold_markers by simp

lemma set_map_fst_filter:
  "set (map fst (filter P D)) = {m. \<exists>ms. (m, ms) \<in> set D \<and> P (m, ms)}"
  by (induction D) auto

lemma tel_marker_types_eq:
  "tel_marker_types tokens = set (map fst (categories_hit tokens))"
  unfolding tel_marker_types_set categories_hit_def set_map_fst_filter
  by (simp add: list_ex_iff)

lemma distinct_DISCOURSE_MARKERS: "distinct (map fst DISCOURSE_MARKERS)"
  by (simp add: DISCOURSE_MARKERS_def)

lemma card_tel_marker_types:
  "card (tel_marker_types tokens) = length (categories_hit tokens)"
proof -
  have "distinct (map fst (categories_hit tokens))"
    unfolding categories_hit_def using distinct_DISCOURSE_MARKERS by (rule distinct_map_filter)
  from distinct_card [OF this] show ?thesis
    by (simp add: tel_marker_types_eq)
qed

lemma categories_hit_le: "length (categories_hit tokens) \<le> 5"
proof -
  have "length (categories_hit tokens) \<le> length DISCOURSE_MARKERS"
    unfolding categories_hit_def by (rule length_filter_le)
  then show ?thesis by (simp add: DISCOURSE_MARKERS_def)
qed

lemma is_marker_iff:
  "is_marker t \<longleftrightarrow> (\<exists>m ms. (m, ms) \<in> set DISCOURSE_MARKERS \<and> t \<in> set ms)"
  by (auto simp: is_marker_def list_ex_iff)

lemma hit_iff:
  assumes "''maar'' \<in> set tokens" "''omdat'' \<in> set tokens"
    and other: "\<forall>t \<in> set tokens. t \<noteq> ''maar'' \<and> t \<noteq> ''omdat'' \<longrightarrow> \<not> is_marker t"
    and ms: "(m, ms) \<in> set DISCOURSE_MARKERS"
  shows "list_ex (\<lambda>t. t \<in> set ms) tokens \<longleftrightarrow> ''maar'' \<in> set ms \<or> ''omdat'' \<in> set ms"
proof
  assume "list_ex (\<lambda>t. t \<in> set ms) tokens"
  then obtain t where t: "t \<in> set tokens" "t \<in> set ms"
    unfolding list_ex_iff by blast
  from t(2) ms have "is_marker t"
    unfolding is_marker_iff by blast
  with other t(1) have "t = ''maar'' \<or> t = ''omdat''"
    by blast
  with t(2) show "''maar'' \<in> set ms \<or> ''omdat'' \<in> set ms"
    by blast
next
  assume "''maar'' \<in> set ms \<or> ''omdat'' \<in> set ms"
  with assms(1,2) show "list_ex (\<lambda>t. t \<in> set ms) tokens"
    unfolding list_ex_iff by blast
qed

lemma maar_omdat_filter:
  "map fst (filter (\<lambda>(m, ms). ''maar'' \<in> set ms \<or> ''omdat'' \<in> set ms) DISCOURSE_MARKERS)
     = [''causaal'', ''contrastief'']"
  by (simp add: DISCOURSE_MARKERS_def)

lemma maar_omdat:
  assumes "''maar'' \<in> set tokens" "''omdat'' \<in> set tokens"
    and "\<forall>t \<in> set tokens. t \<noteq> ''maar'' \<and> t \<noteq> ''omdat'' \<longrightarrow> \<not> is_marker t"
  shows "length (categories_hit tokens) = 2"
proof -
  have "filter (\<lambda>(mtype, markers). list_ex (\<lambda>t. t \<in> set markers) tokens) DISCOURSE_MARKERS
      = filter (\<lambda>(m, ms). ''maar'' \<in> set ms \<or> ''omdat'' \<in> set ms) DISCOURSE_MARKERS"
  proof (rule filter_cong [OF refl])
    fix e assume e: "e \<in> set DISCOURSE_MARKERS"
    obtain m ms where [simp]: "e = (m, ms)"
      by (cases e)
    from e have "(m, ms) \<in> set DISCOURSE_MARKERS"
      by simp
    from hit_iff [OF assms this]
    show "(case e of (mtype, markers) \<Rightarrow> list_ex (\<lambda>t. t \<in> set markers) tokens)
        = (case e of (m, ms) \<Rightarrow> ''maar'' \<in> set ms \<or> ''omdat'' \<in> set ms)"
      by simp
  qed
  then have "map fst (categories_hit tokens) = [''causaal'', ''contrastief'']"
    unfolding categories_hit_def by (simp only: maar_omdat_filter)
  then have "length (map fst (categories_hit tokens)) = 2"
    by simp
  then show ?thesis by simp
qed

lemma temporeel_terwijl:
  "(''temporeel'', [''toen'', ''daarna'', ''vervolgens'', ''eerst'', ''dan'', ''later'',
                     ''eerder'', ''voordat'', ''nadat'', ''terwijl'', ''zodra'', ''inmiddels'',
                     ''intussen'', ''uiteindelijk'']) \<in> set DISCOURSE_MARKERS"
  by (simp add: DISCOURSE_MARKERS_def)

lemma contrastief_terwijl:
  "(''contrastief'', [''maar'', ''echter'', ''toch'', ''hoewel'', ''ondanks'', ''terwijl'',
                       ''daarentegen'', ''integendeel'', ''niettemin'', ''desondanks'',
                       ''weliswaar'']) \<in> set DISCOURSE_MARKERS"
  by (simp add: DISCOURSE_MARKERS_def)

lemma marker_type_hit:
  "(m, ms) \<in> set DISCOURSE_MARKERS \<Longrightarrow> t \<in> set ms \<Longrightarrow> t \<in> set tokens
     \<Longrightarrow> m \<in> tel_marker_types tokens"
  unfolding tel_marker_types_set by blast

lemma terwijl_two:
  assumes "''terwijl'' \<in> set tokens"
  shows "2 \<le> card (tel_marker_types tokens)"
proof -
  have t: "''temporeel'' \<in> tel_marker_types tokens"
    by (rule marker_type_hit [OF temporeel_terwijl _ assms]) simp
  have c: "''contrastief'' \<in> tel_marker_types tokens"
    by (rule marker_type_hit [OF contrastief_terwijl _ assms]) simp
  have "finite (tel_marker_types tokens)"
    by (simp add: tel_marker_types_eq)
  moreover from t c have "{''temporeel'', ''contrastief''} \<subseteq> tel_marker_types tokens"
    by simp
  ultimately have "card {''temporeel'', ''contrastief''} \<le> card (tel_marker_types tokens)"
    by (rule card_mono)
  then show ?thesis by simp
qed

lemma analyse_ref_fields:
  assumes "analyse_ref L tekst = Inr (Some r)"
  shows "20 \<le> length (tokenize tekst)"
    and "REFResult.totaal_woorden r = length (tokenize tekst)"
    and "marker_diversity r = card (tel_marker_types (tokenize tekst))"
    and "(REFResult.niveau r, confidence r) = bepaal_ref_niveau (score r)"
    and "REFResult.pct_frequent r =
           (if L \<noteq> {} then real (length (filter (\<lambda>t. t \<in> L) (tokenize tekst)))
                               / real (length (tokenize tekst)) * 100
            else 65)"
  using assms
  by (auto simp: analyse_ref_def Let_def py_bind_def py_div_def split: prod.splits if_splits)

text \<open>
  C8: in every result of \<^const>\<open>analyse_ref\<close>, \<^const>\<open>marker_diversity\<close> is the number of
  categories of \<^const>\<open>DISCOURSE_MARKERS\<close> (there are five) with at least one token in the
  category's list, so it is at most 5; a token that is in two lists counts for both
  categories ("terwijl" alone gives at least 2); a text with "maar" and "omdat" and no
  other marker gives 2.
\<close>

theorem marker_diversity_categories:
  assumes "analyse_ref L tekst = Inr (Some r)"
  shows "marker_diversity r = length (categories_hit (tokenize tekst))
         \<and> marker_diversity r \<le> 5 \<and> length DISCOURSE_MARKERS = 5
         \<and> (''terwijl'' \<in> set (tokenize tekst) \<longrightarrow> 2 \<le> marker_diversity r)
         \<and> (''maar'' \<in> set (tokenize tekst) \<and> ''omdat'' \<in> set (tokenize tekst)
              \<and> (\<forall>t \<in> set (tokenize tekst). t \<noteq> ''maar'' \<and> t \<noteq> ''omdat'' \<longrightarrow> \<not> is_marker t)
            \<longrightarrow> marker_diversity r = 2)"
proof -
  have m: "marker_diversity r = length (categories_hit (tokenize tekst))"
    by (simp add: analyse_ref_fields(3) [OF assms] card_tel_marker_types)
  have n: "length DISCOURSE_MARKERS = 5"
    by (simp add: DISCOURSE_MARKERS_def)
  have t: "2 \<le> marker_diversity r" if "''terwijl'' \<in> set (tokenize tekst)"
    using terwijl_two [OF that] by (simp add: analyse_ref_fields(3) [OF assms])
  have mo: "marker_diversity r = 2"
    if "''maar'' \<in> set (tokenize tekst)" "''omdat'' \<in> set (tokenize tekst)"
      "\<forall>t \<in> set (tokenize tekst). t \<noteq> ''maar'' \<and> t \<noteq> ''omdat'' \<longrightarrow> \<not> is_marker t"
    using maar_omdat [OF that] m by simp
  from m n t mo categories_hit_le [of "tokenize tekst"] show ?thesis
    by simp
qed

theorem marker_diversity_categories_witness:
  "\<exists>r. analyse_ref {} voorbeeld_tekst_20 = Inr (Some r) \<and> marker_diversity r = 2"
proof -
  obtain r where r: "analyse_ref {} voorbeeld_tekst_20 = Inr (Some r)"
    using analyse_ref_returns [of voorbeeld_tekst_20 "{}"]
    by (auto simp: tokenize_voorbeeld_20)
  have "list_all (\<lambda>t. t \<noteq> ''maar'' \<and> t \<noteq> ''omdat'' \<longrightarrow> \<not> is_marker t)
          [''ik'', ''ga'', ''naar'', ''huis'', ''omdat'', ''het'', ''laat'', ''is'', ''maar'',
           ''mijn'', ''zus'', ''wil'', ''nog'', ''niet'', ''weg'', ''van'', ''het'', ''mooie'',
           ''grote'', ''feest'']"
    by code_simp
  then have o: "\<forall>t \<in> set (tokenize voorbeeld_tekst_20).
                  t \<noteq> ''maar'' \<and> t \<noteq> ''omdat'' \<longrightarrow> \<not> is_marker t"
    unfolding tokenize_voorbeeld_20 list_all_iff .
  have "marker_diversity r = 2"
    using marker_diversity_categories [OF r] o by (simp add: tokenize_voorbeeld_20)
  with r show ?thesis by blast
qed

section \<open>The reference classification\<close>

lemma analyse_ref_score:
  assumes "analyse_ref L tekst = Inr (Some r)"
  shows "score r = REF_INTERCEPT + REF_COEF_LONG_SENT * (long_sent_ratio r * 100)
                     + REF_COEF_MARKER_DIV * real (marker_diversity r)
                     + REF_COEF_WL * REFResult.gem_woordlengte r"
    and "REFResult.gem_woordlengte r =
           real (sum_list (map length (tokenize tekst))) / real (length (tokenize tekst))"
    and "long_sent_ratio r =
           (let sentence_lengths =
                  (if split_sentences tekst \<noteq> []
                   then map (\<lambda>s. length (tokenize s)) (split_sentences tekst)
                   else [length (tokenize tekst)])
            in real (length (filter (\<lambda>l. l > 20) sentence_lengths))
                 / real (length sentence_lengths))"
  using assms
  by (auto simp: analyse_ref_def Let_def py_bind_def py_div_def split: prod.splits if_splits)

lemma bepaal_ref_niveau_cases:
  "bepaal_ref_niveau s =
     (if s < 1.25 then (''1F'', if s < 1.0 then ''Hoog'' else ''Gemiddeld'')
      else if s < 2.35
      then (''2F'', if 1.5 \<le> s \<and> s \<le> 2.1 then ''Hoog'' else ''Gemiddeld (grensgebied)'')
      else (''3F'', if s > 2.7 then ''Hoog'' else ''Gemiddeld''))"
  by (simp add: bepaal_ref_niveau_def REF_CUTOFF_1F_2F_def REF_CUTOFF_2F_3F_def)

lemma split_sentences_voorbeeld_20: "split_sentences voorbeeld_tekst_20 = [voorbeeld_tekst_20]"
  by code_simp

lemma markers_voorbeeld_20: "card (tel_marker_types (tokenize voorbeeld_tekst_20)) = 2"
proof -
  have "list_all (\<lambda>t. t \<noteq> ''maar'' \<and> t \<noteq> ''omdat'' \<longrightarrow> \<not> is_marker t)
          [''ik'', ''ga'', ''naar'', ''huis'', ''omdat'', ''het'', ''laat'', ''is'', ''maar'',
           ''mijn'', ''zus'', ''wil'', ''nog'', ''niet'', ''weg'', ''van'', ''het'', ''mooie'',
           ''grote'', ''feest'']"
    by code_simp
  then have "\<forall>t \<in> set (tokenize voorbeeld_tekst_20).
               t \<noteq> ''maar'' \<and> t \<noteq> ''omdat'' \<longrightarrow> \<not> is_marker t"
    unfolding tokenize_voorbeeld_20 list_all_iff .
  from maar_omdat [OF _ _ this] show ?thesis
    by (simp add: card_tel_marker_types tokenize_voorbeeld_20)
qed

text \<open>
  C4: in every result of \<^const>\<open>analyse_ref\<close>, a score below 1.25 gives level 1F, with
  confidence "Hoog" exactly when the score is below 1.0 and "Gemiddeld" otherwise; a score
  from 1.25 and below 2.35 gives 2F, with "Hoog" exactly when the score is from 1.5 to 2.1
  and "Gemiddeld (grensgebied)" otherwise; a score from 2.35 gives 3F, with "Hoog" exactly
  when the score is above 2.7 and "Gemiddeld" otherwise. The scores 1.24, 1.25 and 2.35 are
  classified 1F, 2F and 3F.
\<close>

theorem ref_niveau_confidence:
  assumes "analyse_ref L tekst = Inr (Some r)"
  shows "(score r < 1.25 \<longrightarrow>
            REFResult.niveau r = ''1F''
            \<and> (confidence r = ''Hoog'' \<longleftrightarrow> score r < 1.0)
            \<and> (\<not> score r < 1.0 \<longrightarrow> confidence r = ''Gemiddeld''))
         \<and> (1.25 \<le> score r \<and> score r < 2.35 \<longrightarrow>
            REFResult.niveau r = ''2F''
            \<and> (confidence r = ''Hoog'' \<longleftrightarrow> 1.5 \<le> score r \<and> score r \<le> 2.1)
            \<and> (\<not> (1.5 \<le> score r \<and> score r \<le> 2.1)
                 \<longrightarrow> confidence r = ''Gemiddeld (grensgebied)''))
         \<and> (2.35 \<le> score r \<longrightarrow>
            REFResult.niveau r = ''3F''
            \<and> (confidence r = ''Hoog'' \<longleftrightarrow> score r > 2.7)
            \<and> (\<not> score r > 2.7 \<longrightarrow> confidence r = ''Gemiddeld''))
         \<and> fst (bepaal_ref_niveau 1.24) = ''1F''
         \<and> fst (bepaal_ref_niveau 1.25) = ''2F''
         \<and> fst (bepaal_ref_niveau 2.35) = ''3F''"
proof -
  have nc: "(REFResult.niveau r, confidence r) = bepaal_ref_niveau (score r)"
    by (rule analyse_ref_fields(4) [OF assms])
  have a: "fst (bepaal_ref_niveau 1.24) = ''1F''"
    by (simp add: bepaal_ref_niveau_cases)
  have b: "fst (bepaal_ref_niveau 1.25) = ''2F''"
    by (simp add: bepaal_ref_niveau_cases)
  have c: "fst (bepaal_ref_niveau 2.35) = ''3F''"
    by (simp add: bepaal_ref_niveau_cases)
  have lo: "REFResult.niveau r = ''1F'' \<and> (confidence r = ''Hoog'' \<longleftrightarrow> score r < 1.0)
            \<and> (\<not> score r < 1.0 \<longrightarrow> confidence r = ''Gemiddeld'')"
    if "score r < 1.25"
    using nc that by (simp add: bepaal_ref_niveau_cases split: if_splits)
  have mid: "REFResult.niveau r = ''2F''
            \<and> (confidence r = ''Hoog'' \<longleftrightarrow> 1.5 \<le> score r \<and> score r \<le> 2.1)
            \<and> (\<not> (1.5 \<le> score r \<and> score r \<le> 2.1)
                 \<longrightarrow> confidence r = ''Gemiddeld (grensgebied)'')"
    if "1.25 \<le> score r \<and> score r < 2.35"
    using nc that by (simp add: bepaal_ref_niveau_cases split: if_splits)
  have hi: "REFResult.niveau r = ''3F'' \<and> (confidence r = ''Hoog'' \<longleftrightarrow> score r > 2.7)
            \<and> (\<not> score r > 2.7 \<longrightarrow> confidence r = ''Gemiddeld'')"
    if "2.35 \<le> score r"
    using nc that by (simp add: bepaal_ref_niveau_cases split: if_splits)
  from a b c lo mid hi show ?thesis by blast
qed

theorem ref_niveau_confidence_witness:
  "\<exists>r. analyse_ref {} voorbeeld_tekst_20 = Inr (Some r) \<and> score r < 1.0
       \<and> REFResult.niveau r = ''1F'' \<and> confidence r = ''Hoog''"
proof -
  obtain r where r: "analyse_ref {} voorbeeld_tekst_20 = Inr (Some r)"
    using analyse_ref_returns [of voorbeeld_tekst_20 "{}"]
    by (auto simp: tokenize_voorbeeld_20)
  have m: "marker_diversity r = 2"
    using analyse_ref_fields(3) [OF r] markers_voorbeeld_20 by simp
  have w: "REFResult.gem_woordlengte r = 3.55"
    using analyse_ref_score(2) [OF r] by (simp add: tokenize_voorbeeld_20)
  have l: "long_sent_ratio r = 0"
    using analyse_ref_score(3) [OF r]
    by (simp add: split_sentences_voorbeeld_20 tokenize_voorbeeld_20)
  have "score r = REF_INTERCEPT + REF_COEF_MARKER_DIV * 2 + REF_COEF_WL * 3.55"
    using analyse_ref_score(1) [OF r] w l m by simp
  also have "\<dots> < 1.0"
    by (simp add: REF_INTERCEPT_def REF_COEF_MARKER_DIV_def REF_COEF_WL_def)
  finally have s: "score r < 1.0" .
  then have "score r < 1.25" by simp
  with s r ref_niveau_confidence [OF r] show ?thesis by blast
qed

section \<open>The empty word list\<close>

lemma analyse_avi_leeg:
  assumes "analyse_avi L tekst tg = Inr (Some r)"
  shows "analyse_avi {} tekst tg =
           Inr (Some (r\<lparr>AVIResult.pct_frequent := 70,
                        bilt := BILT_INTERCEPT + BILT_COEF_FREQ * 70
                                  + BILT_COEF_WLEN * AVIResult.gem_woordlengte r,
                        AVIResult.niveau :=
                          bepaal_avi_niveau (BILT_INTERCEPT + BILT_COEF_FREQ * 70
                                  + BILT_COEF_WLEN * AVIResult.gem_woordlengte r)\<rparr>))"
  using assms
  by (auto simp: analyse_avi_def Let_def py_bind_def py_div_def split: prod.splits if_splits)

lemma analyse_ref_leeg:
  assumes "analyse_ref L tekst = Inr (Some q)"
  shows "analyse_ref {} tekst = Inr (Some (q\<lparr>REFResult.pct_frequent := 65\<rparr>))"
  using assms
  by (auto simp: analyse_ref_def Let_def py_bind_def py_div_def split: prod.splits if_splits)

text \<open>
  C9: with an empty word list each analysis returns a result for the same texts as with a
  word list \<open>L\<close> (from 10, from 20 tokens on) and raises nothing. The result of
  \<^const>\<open>analyse_avi\<close> is the one with \<open>L\<close> with \<open>pct_frequent\<close> replaced by 70 and the score
  and the level computed by the same formula from 70; the result of \<^const>\<open>analyse_ref\<close> is
  the one with \<open>L\<close> with \<open>pct_frequent\<close> replaced by 65, all other fields and the score
  unchanged.
\<close>

theorem lege_woordenlijst:
  "(analyse_avi {} tekst tg = Inr None \<longleftrightarrow> analyse_avi L tekst tg = Inr None)
   \<and> (10 \<le> length (tokenize tekst) \<longrightarrow>
        (\<exists>r0. analyse_avi {} tekst tg = Inr (Some r0) \<and> AVIResult.pct_frequent r0 = 70))
   \<and> (analyse_avi L tekst tg = Inr (Some r) \<longrightarrow>
        analyse_avi {} tekst tg =
          Inr (Some (r\<lparr>AVIResult.pct_frequent := 70,
                       bilt := BILT_INTERCEPT + BILT_COEF_FREQ * 70
                                 + BILT_COEF_WLEN * AVIResult.gem_woordlengte r,
                       AVIResult.niveau :=
                         bepaal_avi_niveau (BILT_INTERCEPT + BILT_COEF_FREQ * 70
                                 + BILT_COEF_WLEN * AVIResult.gem_woordlengte r)\<rparr>)))
   \<and> (analyse_ref {} tekst = Inr None \<longleftrightarrow> analyse_ref L tekst = Inr None)
   \<and> (20 \<le> length (tokenize tekst) \<longrightarrow>
        (\<exists>q0. analyse_ref {} tekst = Inr (Some q0) \<and> REFResult.pct_frequent q0 = 65))
   \<and> (analyse_ref L tekst = Inr (Some q) \<longrightarrow>
        analyse_ref {} tekst = Inr (Some (q\<lparr>REFResult.pct_frequent := 65\<rparr>)))"
proof -
  have a: "analyse_avi {} tekst tg = Inr None \<longleftrightarrow> analyse_avi L tekst tg = Inr None"
    by (simp add: analyse_avi_None_iff)
  have b: "\<exists>r0. analyse_avi {} tekst tg = Inr (Some r0) \<and> AVIResult.pct_frequent r0 = 70"
    if "10 \<le> length (tokenize tekst)"
  proof -
    from analyse_avi_returns [OF that] obtain r0
      where r0: "analyse_avi {} tekst tg = Inr (Some r0)" by blast
    from analyse_avi_fields(4) [OF r0] have "AVIResult.pct_frequent r0 = 70" by simp
    with r0 show ?thesis by blast
  qed
  have c: "analyse_ref {} tekst = Inr None \<longleftrightarrow> analyse_ref L tekst = Inr None"
    by (simp add: analyse_ref_None_iff)
  have d: "\<exists>q0. analyse_ref {} tekst = Inr (Some q0) \<and> REFResult.pct_frequent q0 = 65"
    if "20 \<le> length (tokenize tekst)"
  proof -
    from analyse_ref_returns [OF that] obtain q0
      where q0: "analyse_ref {} tekst = Inr (Some q0)" by blast
    from analyse_ref_fields(5) [OF q0] have "REFResult.pct_frequent q0 = 65" by simp
    with q0 show ?thesis by blast
  qed
  from a b c d analyse_avi_leeg [of L tekst tg r] analyse_ref_leeg [of L tekst q]
  show ?thesis by blast
qed

theorem lege_woordenlijst_witness:
  "\<exists>r q.
     analyse_avi {''het''} voorbeeld_tekst_20 None = Inr (Some r)
     \<and> AVIResult.pct_frequent r = 10
     \<and> analyse_avi {} voorbeeld_tekst_20 None =
          Inr (Some (r\<lparr>AVIResult.pct_frequent := 70,
                       bilt := BILT_INTERCEPT + BILT_COEF_FREQ * 70
                                 + BILT_COEF_WLEN * AVIResult.gem_woordlengte r,
                       AVIResult.niveau :=
                         bepaal_avi_niveau (BILT_INTERCEPT + BILT_COEF_FREQ * 70
                                 + BILT_COEF_WLEN * AVIResult.gem_woordlengte r)\<rparr>))
     \<and> analyse_ref {''het''} voorbeeld_tekst_20 = Inr (Some q)
     \<and> REFResult.pct_frequent q = 10
     \<and> analyse_ref {} voorbeeld_tekst_20 = Inr (Some (q\<lparr>REFResult.pct_frequent := 65\<rparr>))"
proof -
  obtain r where r: "analyse_avi {''het''} voorbeeld_tekst_20 None = Inr (Some r)"
    using analyse_avi_returns [of voorbeeld_tekst_20 "{''het''}" None]
    by (auto simp: tokenize_voorbeeld_20)
  obtain q where q: "analyse_ref {''het''} voorbeeld_tekst_20 = Inr (Some q)"
    using analyse_ref_returns [of voorbeeld_tekst_20 "{''het''}"]
    by (auto simp: tokenize_voorbeeld_20)
  have pr: "AVIResult.pct_frequent r = 10"
    using analyse_avi_fields(4) [OF r] by (simp add: tokenize_voorbeeld_20)
  have pq: "REFResult.pct_frequent q = 10"
    using analyse_ref_fields(5) [OF q] by (simp add: tokenize_voorbeeld_20)
  from r q pr pq
    lege_woordenlijst [where tekst = voorbeeld_tekst_20 and tg = None and L = "{''het''}"
      and r = r and q = q]
  show ?thesis by blast
qed

section \<open>Properties of the suggestions\<close>

lemma level_index_less: "level_index n < length AVI_LEVELS"
  by (simp add: level_index_def AVI_LEVELS_def mk_level_def)

lemma list_all_als_str: "(\<And>s. P (f s)) \<Longrightarrow> list_all P (als_str v f)"
  by (auto simp: als_str_def split: option.splits)

lemma list_all_als_nat: "(\<And>n. P (f n)) \<Longrightarrow> list_all P (als_nat v f)"
  by (auto simp: als_nat_def split: option.splits)

lemma get_avi_suggesties_returns: "\<exists>xs. get_avi_suggesties r target = Inr xs"
  using level_index_less [of target]
  by (simp add: get_avi_suggesties_def Let_def py_bind_def py_index_def)

lemma woordtypen_known:
  assumes "target \<in> fst ` set AVI_KENMERKEN"
  shows "\<exists>k w. map_of AVI_KENMERKEN target = Some k \<and> woordtypen k = Some w \<and> w \<noteq> []"
  using assms
  by (auto simp: AVI_KENMERKEN_def mk_kenmerken_def alleen_bilt_def)

lemma get_avi_suggesties_decomp:
  assumes "get_avi_suggesties r target = Inr xs"
  shows "\<exists>gap_lines.
           xs = gap_lines
                  @ avi_vaste_regels target (level_index target < level_index (AVIResult.niveau r))
           \<and> (gap_lines = [] \<longleftrightarrow>
                \<not> avi_gap r (AVI_LEVELS ! level_index target)
                     (level_index target < level_index (AVIResult.niveau r)))"
proof (cases "level_index target < level_index (AVIResult.niveau r)")
  case True
  let ?specs = "AVI_LEVELS ! level_index target"
  let ?gap = "(if AVIResult.gem_woordlengte r > gem_wlen ?specs
               then [AVI_Kortere_woorden (AVIResult.gem_woordlengte r) (gem_wlen ?specs)]
               else [])
              @ (if AVIResult.pct_frequent r < pct_freq ?specs
                 then [Frequentere_woorden (AVIResult.pct_frequent r) (pct_freq ?specs)]
                 else [])"
  have "xs = ?gap @ avi_vaste_regels target True"
    using assms True level_index_less [of target]
    by (simp add: get_avi_suggesties_def Let_def py_bind_def py_index_def avi_vaste_regels_def)
  moreover have "?gap = [] \<longleftrightarrow> \<not> avi_gap r ?specs True"
    by (simp add: avi_gap_def)
  moreover from True have "(level_index target < level_index (AVIResult.niveau r)) = True"
    by simp
  ultimately show ?thesis
    by (simp only:) blast
next
  case False
  let ?specs = "AVI_LEVELS ! level_index target"
  let ?gap = "(if AVIResult.gem_woordlengte r < gem_wlen ?specs
               then [AVI_Langere_woorden (AVIResult.gem_woordlengte r) (gem_wlen ?specs)]
               else [])
              @ (if AVIResult.pct_frequent r > pct_freq ?specs
                 then [Minder_frequente_woorden (AVIResult.pct_frequent r) (pct_freq ?specs)]
                 else [])"
  have "xs = ?gap @ avi_vaste_regels target False"
    using assms False level_index_less [of target]
    by (simp add: get_avi_suggesties_def Let_def py_bind_def py_index_def avi_vaste_regels_def)
  moreover have "?gap = [] \<longleftrightarrow> \<not> avi_gap r ?specs False"
    by (simp add: avi_gap_def)
  moreover from False have "(level_index target < level_index (AVIResult.niveau r)) = False"
    by simp
  ultimately show ?thesis
    by (simp only:) blast
qed

lemma get_avi_suggesties_last:
  assumes t: "target \<in> fst ` set AVI_KENMERKEN"
    and xs: "get_avi_suggesties r target = Inr xs"
  shows "\<exists>k w. map_of AVI_KENMERKEN target = Some k \<and> woordtypen k = Some w
           \<and> xs \<noteq> [] \<and> last xs = Woordtypen target w"
proof -
  from woordtypen_known [OF t] obtain k w
    where k: "map_of AVI_KENMERKEN target = Some k" "woordtypen k = Some w" "w \<noteq> []"
    by blast
  have "als_str (woordtypen k) (Woordtypen target) = [Woordtypen target w]"
    using k by (simp add: als_str_def)
  with xs k(1) level_index_less [of target] obtain pre where "xs = pre @ [Woordtypen target w]"
    by (auto simp: get_avi_suggesties_def Let_def py_bind_def py_index_def)
  with k show ?thesis by simp
qed

lemma get_ref_suggesties_returns:
  assumes "target \<in> fst ` set niveau_order" "REFResult.niveau q \<in> fst ` set niveau_order"
  shows "\<exists>ys. get_ref_suggesties q target = Inr ys"
proof -
  from assms(1) have "target = ''1F'' \<or> target = ''2F'' \<or> target = ''3F''"
    by (auto simp: niveau_order_def)
  moreover from assms(2) have "REFResult.niveau q = ''1F'' \<or> REFResult.niveau q = ''2F''
      \<or> REFResult.niveau q = ''3F''"
    by (auto simp: niveau_order_def)
  ultimately show ?thesis
    by (auto simp: get_ref_suggesties_def py_bind_def py_lookup_def niveau_order_def
          REF_NIVEAU_INFO_def)
qed

lemma get_ref_suggesties_shape:
  assumes "get_ref_suggesties q doel = Inr ys"
  shows "\<exists>t c. map_of niveau_order doel = Some t
           \<and> map_of niveau_order (REFResult.niveau q) = Some c
           \<and> (t < c \<longrightarrow> list_all is_vereenvoudigen ys \<and> last ys = Tip_eenvoudig)
           \<and> (c \<le> t \<longrightarrow> list_all is_verrijken ys \<and> last ys = Tip_verrijk)"
  using assms
  by (auto simp: get_ref_suggesties_def py_bind_def py_lookup_def
        split: option.splits if_splits)

lemma get_ref_suggesties_decomp:
  assumes "get_ref_suggesties q doel = Inr ys"
  shows "\<exists>info t c gap_lines.
           map_of REF_NIVEAU_INFO doel = Some info
           \<and> map_of niveau_order doel = Some t
           \<and> map_of niveau_order (REFResult.niveau q) = Some c
           \<and> ys = gap_lines @ [ref_tip (t < c)]
           \<and> (gap_lines = [] \<longleftrightarrow> \<not> ref_gap q info (t < c))"
proof -
  from assms obtain info t c
    where i: "map_of REF_NIVEAU_INFO doel = Some info"
      and t: "map_of niveau_order doel = Some t"
      and c: "map_of niveau_order (REFResult.niveau q) = Some c"
    by (auto simp: get_ref_suggesties_def py_bind_def py_lookup_def split: option.splits)
  have "\<exists>gap_lines. ys = gap_lines @ [ref_tip (t < c)]
          \<and> (gap_lines = [] \<longleftrightarrow> \<not> ref_gap q info (t < c))"
  proof (cases "t < c")
    case True
    let ?gap = "(if REFResult.gem_woordlengte q > wl_typical info + 0.2
                 then [REF_Kortere_woorden (REFResult.gem_woordlengte q) (wl_typical info)]
                 else [])
                @ (if REFResult.gem_zinslengte q > zl_typical info + 2
                   then [REF_Kortere_zinnen (REFResult.gem_zinslengte q) (zl_typical info)]
                   else [])
                @ (if long_sent_ratio q * 100 > long_sent_typical info + 5
                   then [Minder_lange_zinnen (long_sent_ratio q * 100) (long_sent_typical info)]
                   else [])"
    have "ys = ?gap @ [ref_tip True]"
      using assms i t c True
      by (simp add: get_ref_suggesties_def py_bind_def py_lookup_def ref_tip_def)
    moreover have "?gap = [] \<longleftrightarrow> \<not> ref_gap q info True"
      by (simp add: ref_gap_def)
    moreover from True have "(t < c) = True"
      by simp
    ultimately show ?thesis
      by (simp only:) blast
  next
    case False
    let ?gap = "(if REFResult.gem_woordlengte q < wl_typical info - 0.2
                 then [REF_Langere_woorden (REFResult.gem_woordlengte q) (wl_typical info)]
                 else [])
                @ (if REFResult.gem_zinslengte q < zl_typical info - 2
                   then [REF_Langere_zinnen (REFResult.gem_zinslengte q) (zl_typical info)]
                   else [])
                @ (if long_sent_ratio q * 100 < long_sent_typical info - 5
                   then [Meer_lange_zinnen (long_sent_ratio q * 100) (long_sent_typical info)]
                   else [])
                @ (if marker_diversity q < 4 then [Meer_signaalwoorden] else [])"
    have "ys = ?gap @ [ref_tip False]"
      using assms i t c False
      by (simp add: get_ref_suggesties_def py_bind_def py_lookup_def ref_tip_def)
    moreover have "?gap = [] \<longleftrightarrow> \<not> ref_gap q info False"
      by (simp add: ref_gap_def)
    moreover from False have "(t < c) = False"
      by simp
    ultimately show ?thesis
      by (simp only:) blast
  qed
  with i t c show ?thesis by blast
qed

lemma get_avi_suggesties_shape:
  assumes "get_avi_suggesties r target = Inr xs"
  shows "(level_index target < level_index (AVIResult.niveau r)
            \<longrightarrow> list_all (\<lambda>s. is_vereenvoudigen s \<or> is_woordtypen s) xs)
         \<and> (level_index (AVIResult.niveau r) \<le> level_index target
            \<longrightarrow> list_all (\<lambda>s. is_verrijken s \<or> is_woordtypen s) xs)"
  using assms level_index_less [of target]
  by (auto simp: get_avi_suggesties_def Let_def py_bind_def py_index_def
        intro!: list_all_als_str list_all_als_nat)

lemmas ref_suggestie_defs = get_ref_suggesties_def py_bind_def py_lookup_def
  REF_NIVEAU_INFO_def niveau_order_def voorbeeld_ref_2F_def

lemmas avi_suggestie_defs = get_avi_suggesties_def Let_def py_bind_def py_index_def
  level_index_def AVI_LEVELS_def mk_level_def AVI_KENMERKEN_def mk_kenmerken_def
  alleen_bilt_def lege_kenmerken_def als_str_def als_nat_def voorbeeld_avi_M5_def

text \<open>
  C5, as stated, fails. The result \<^const>\<open>voorbeeld_ref_2F\<close> has exactly the typical values of
  2F and all five marker categories, so no threshold of \<^const>\<open>get_ref_suggesties\<close> is
  crossed for the target 2F, and still the sequence returned is not empty: it holds the
  closing tip. And for a target that is not a key of the table the call raises KeyError.
\<close>

theorem suggesties_counterexample:
  "get_ref_suggesties voorbeeld_ref_2F ''2F'' = Inr [Tip_verrijk]
   \<and> get_ref_suggesties voorbeeld_ref_2F ''4F'' = Inl KeyError"
  by (simp add: ref_suggestie_defs)

text \<open>
  C5, amended: \<^const>\<open>get_avi_suggesties\<close> never fails, and \<^const>\<open>get_ref_suggesties\<close> does not
  fail when the target and the level of the result are keys of its table (1F, 2F, 3F).
  When no gap is detected the sequence returned is not empty but holds exactly the lines
  that do not depend on the result: for \<^const>\<open>get_ref_suggesties\<close> the tip of the direction
  of the advice, for \<^const>\<open>get_avi_suggesties\<close> the fixed lines of the target in that
  direction (\<^const>\<open>avi_vaste_regels\<close>). When a gap is detected, lines for it come before
  these. So every sequence of \<^const>\<open>get_ref_suggesties\<close> ends with the tip of its direction,
  and every sequence of \<^const>\<open>get_avi_suggesties\<close> for a target of \<^const>\<open>AVI_KENMERKEN\<close> ends
  with the line on the word types of that target.
\<close>

theorem suggesties_total:
  "(\<exists>xs. get_avi_suggesties r target = Inr xs)
   \<and> (get_avi_suggesties r target = Inr xs \<longrightarrow>
        (\<exists>gap_lines.
           xs = gap_lines
                  @ avi_vaste_regels target (level_index target < level_index (AVIResult.niveau r))
           \<and> (gap_lines = [] \<longleftrightarrow>
                \<not> avi_gap r (AVI_LEVELS ! level_index target)
                     (level_index target < level_index (AVIResult.niveau r)))))
   \<and> (target \<in> fst ` set AVI_KENMERKEN \<and> get_avi_suggesties r target = Inr xs \<longrightarrow>
        (\<exists>k w. map_of AVI_KENMERKEN target = Some k \<and> woordtypen k = Some w
           \<and> xs \<noteq> [] \<and> last xs = Woordtypen target w))
   \<and> (doel \<in> fst ` set niveau_order \<and> REFResult.niveau q \<in> fst ` set niveau_order
        \<longrightarrow> (\<exists>ys. get_ref_suggesties q doel = Inr ys))
   \<and> (get_ref_suggesties q doel = Inr ys \<longrightarrow>
        (\<exists>info t c gap_lines.
           map_of REF_NIVEAU_INFO doel = Some info
           \<and> map_of niveau_order doel = Some t
           \<and> map_of niveau_order (REFResult.niveau q) = Some c
           \<and> ys = gap_lines @ [ref_tip (t < c)]
           \<and> (gap_lines = [] \<longleftrightarrow> \<not> ref_gap q info (t < c))))"
  using get_avi_suggesties_returns [of r target] get_avi_suggesties_decomp [of r target xs]
    get_avi_suggesties_last [of target r xs]
    get_ref_suggesties_returns [of doel q] get_ref_suggesties_decomp [of q doel ys]
  by blast

theorem suggesties_total_witness:
  "''AVI-M5'' \<in> fst ` set AVI_KENMERKEN
   \<and> \<not> avi_gap voorbeeld_avi_M5 (AVI_LEVELS ! level_index ''AVI-M5'')
         (level_index ''AVI-M5'' < level_index (AVIResult.niveau voorbeeld_avi_M5))
   \<and> get_avi_suggesties voorbeeld_avi_M5 ''AVI-M5''
       = Inr (avi_vaste_regels ''AVI-M5''
                (level_index ''AVI-M5'' < level_index (AVIResult.niveau voorbeeld_avi_M5)))
   \<and> last (avi_vaste_regels ''AVI-M5''
             (level_index ''AVI-M5'' < level_index (AVIResult.niveau voorbeeld_avi_M5)))
       = Woordtypen ''AVI-M5'' ''Woorden met x, -tie, c als /k/, uitbreiding woordenschat''
   \<and> ''2F'' \<in> fst ` set niveau_order
   \<and> REFResult.niveau voorbeeld_ref_2F \<in> fst ` set niveau_order
   \<and> get_ref_suggesties voorbeeld_ref_2F ''2F'' = Inr [ref_tip False]
   \<and> (\<exists>gap_lines. gap_lines \<noteq> []
         \<and> get_ref_suggesties voorbeeld_ref_2F ''1F'' = Inr (gap_lines @ [ref_tip True]))"
proof -
  let ?omlaag = "level_index ''AVI-M5'' < level_index (AVIResult.niveau voorbeeld_avi_M5)"
  have a: "''AVI-M5'' \<in> fst ` set AVI_KENMERKEN"
    by (simp add: AVI_KENMERKEN_def)
  have k: "map_of AVI_KENMERKEN ''AVI-M5'' = Some (mk_kenmerken
        (Some ''Woorden met x, -tie, c als /k/, uitbreiding woordenschat'')
        None None
        (Some ''x, -tie, c als /k/'')
        (Some ''Complexe leenwoorden met vreemde spelling''))"
    by (simp add: AVI_KENMERKEN_def)
  have g: "\<not> avi_gap voorbeeld_avi_M5 (AVI_LEVELS ! level_index ''AVI-M5'') ?omlaag"
    by (simp add: avi_gap_def level_index_def AVI_LEVELS_def mk_level_def voorbeeld_avi_M5_def)
  have b: "''2F'' \<in> fst ` set niveau_order" "''1F'' \<in> fst ` set niveau_order"
    "REFResult.niveau voorbeeld_ref_2F \<in> fst ` set niveau_order"
    by (simp_all add: niveau_order_def voorbeeld_ref_2F_def)
  have o: "map_of niveau_order ''2F'' = Some 2" "map_of niveau_order ''1F'' = Some 1"
    "map_of niveau_order (REFResult.niveau voorbeeld_ref_2F) = Some 2"
    by (simp_all add: niveau_order_def voorbeeld_ref_2F_def)
  have i2: "map_of REF_NIVEAU_INFO ''2F''
      = Some \<lparr>naam = ''Einde vmbo / mbo-2,3'', wl_typical = 4.91,
              zl_typical = 14.4, long_sent_typical = 15\<rparr>"
    by (simp add: REF_NIVEAU_INFO_def)
  have i1: "map_of REF_NIVEAU_INFO ''1F''
      = Some \<lparr>naam = ''Einde basisonderwijs / vmbo-bb'', wl_typical = 4.73,
              zl_typical = 10.9, long_sent_typical = 7\<rparr>"
    by (simp add: REF_NIVEAU_INFO_def)
  have n2: "\<not> ref_gap voorbeeld_ref_2F
               \<lparr>naam = ''Einde vmbo / mbo-2,3'', wl_typical = 4.91,
                zl_typical = 14.4, long_sent_typical = 15\<rparr> False"
    by (simp add: ref_gap_def voorbeeld_ref_2F_def)
  have n1: "ref_gap voorbeeld_ref_2F
               \<lparr>naam = ''Einde basisonderwijs / vmbo-bb'', wl_typical = 4.73,
                zl_typical = 10.9, long_sent_typical = 7\<rparr> True"
    by (simp add: ref_gap_def voorbeeld_ref_2F_def)
  obtain xs where xs: "get_avi_suggesties voorbeeld_avi_M5 ''AVI-M5'' = Inr xs"
    using suggesties_total [of voorbeeld_avi_M5 "''AVI-M5''"] by blast
  obtain ys where ys: "get_ref_suggesties voorbeeld_ref_2F ''2F'' = Inr ys"
    using suggesties_total [of _ _ _ "''2F''" voorbeeld_ref_2F] b by blast
  obtain zs where zs: "get_ref_suggesties voorbeeld_ref_2F ''1F'' = Inr zs"
    using suggesties_total [of _ _ _ "''1F''" voorbeeld_ref_2F] b by blast
  from suggesties_total [of voorbeeld_avi_M5 "''AVI-M5''" xs "''2F''" voorbeeld_ref_2F ys]
    xs ys a g k o i2 n2
  have x: "xs = avi_vaste_regels ''AVI-M5'' ?omlaag"
    and l: "last xs = Woordtypen ''AVI-M5''
              ''Woorden met x, -tie, c als /k/, uitbreiding woordenschat''"
    and y: "ys = [ref_tip False]"
    by (auto simp: mk_kenmerken_def)
  from suggesties_total [of voorbeeld_avi_M5 "''AVI-M5''" xs "''1F''" voorbeeld_ref_2F zs]
    zs o i1 n1
  have z: "\<exists>gap_lines. gap_lines \<noteq> [] \<and> zs = gap_lines @ [ref_tip True]"
    by auto
  from a g b xs ys zs x l y z show ?thesis
    by auto
qed

text \<open>
  C6, as stated, fails for equal positions: there is no third kind of advice. A result of
  level 2F with target 2F gets the advice of the enriching direction, the same as a result
  of level 1F with target 2F; a result of level AVI-M5 with target AVI-M5 gets the same
  advice as a result of level AVI-M3 with target AVI-M5.
\<close>

theorem richting_counterexample:
  "REFResult.niveau voorbeeld_ref_2F = ''2F''
   \<and> get_ref_suggesties (voorbeeld_ref_2F\<lparr>marker_diversity := 3\<rparr>) ''2F''
       = Inr [Meer_signaalwoorden, Tip_verrijk]
   \<and> get_ref_suggesties (voorbeeld_ref_2F\<lparr>REFResult.niveau := ''1F'', marker_diversity := 3\<rparr>)
         ''2F''
       = Inr [Meer_signaalwoorden, Tip_verrijk]
   \<and> AVIResult.niveau voorbeeld_avi_M5 = ''AVI-M5''
   \<and> get_avi_suggesties voorbeeld_avi_M5 ''AVI-M5''
       = Inr [Nieuw_toegestaan ''x, -tie, c als /k/'',
              Woordtypen ''AVI-M5'' ''Woorden met x, -tie, c als /k/, uitbreiding woordenschat'']
   \<and> get_avi_suggesties (voorbeeld_avi_M5\<lparr>AVIResult.niveau := ''AVI-M3''\<rparr>) ''AVI-M5''
       = Inr [Nieuw_toegestaan ''x, -tie, c als /k/'',
              Woordtypen ''AVI-M5'' ''Woorden met x, -tie, c als /k/, uitbreiding woordenschat'']"
proof -
  have a: "get_ref_suggesties (voorbeeld_ref_2F\<lparr>marker_diversity := 3\<rparr>) ''2F''
       = Inr [Meer_signaalwoorden, Tip_verrijk]"
    by (simp add: ref_suggestie_defs)
  have b: "get_ref_suggesties
         (voorbeeld_ref_2F\<lparr>REFResult.niveau := ''1F'', marker_diversity := 3\<rparr>) ''2F''
       = Inr [Meer_signaalwoorden, Tip_verrijk]"
    by (simp add: ref_suggestie_defs)
  have c: "get_avi_suggesties voorbeeld_avi_M5 ''AVI-M5''
       = Inr [Nieuw_toegestaan ''x, -tie, c als /k/'',
              Woordtypen ''AVI-M5'' ''Woorden met x, -tie, c als /k/, uitbreiding woordenschat'']"
    by (simp add: avi_suggestie_defs)
  have d: "get_avi_suggesties (voorbeeld_avi_M5\<lparr>AVIResult.niveau := ''AVI-M3''\<rparr>) ''AVI-M5''
       = Inr [Nieuw_toegestaan ''x, -tie, c als /k/'',
              Woordtypen ''AVI-M5'' ''Woorden met x, -tie, c als /k/, uitbreiding woordenschat'']"
    by (simp add: avi_suggestie_defs)
  from a b c d show ?thesis
    by (simp add: voorbeeld_ref_2F_def voorbeeld_avi_M5_def)
qed

text \<open>
  C6, amended: the direction of the advice is decided by the positions of the two levels,
  and there are two directions. When the position of the target is lower than that of the
  current level, every message simplifies (or is the line on word types), and the sequence
  of \<^const>\<open>get_ref_suggesties\<close> ends with the simplifying tip; when it is higher or equal,
  every message enriches (or is the line on word types), and the sequence of
  \<^const>\<open>get_ref_suggesties\<close> ends with the enriching tip.
\<close>

theorem suggestie_richting:
  "(get_avi_suggesties r target = Inr xs \<longrightarrow>
      (level_index target < level_index (AVIResult.niveau r)
         \<longrightarrow> list_all (\<lambda>s. is_vereenvoudigen s \<or> is_woordtypen s) xs)
      \<and> (level_index (AVIResult.niveau r) \<le> level_index target
         \<longrightarrow> list_all (\<lambda>s. is_verrijken s \<or> is_woordtypen s) xs))
   \<and> (get_ref_suggesties q doel = Inr ys \<longrightarrow>
      (\<exists>t c. map_of niveau_order doel = Some t
         \<and> map_of niveau_order (REFResult.niveau q) = Some c
         \<and> (t < c \<longrightarrow> list_all is_vereenvoudigen ys \<and> last ys = Tip_eenvoudig)
         \<and> (c \<le> t \<longrightarrow> list_all is_verrijken ys \<and> last ys = Tip_verrijk)))"
  using get_avi_suggesties_shape [of r target xs] get_ref_suggesties_shape [of q doel ys]
  by blast

theorem suggestie_richting_witness:
  "get_avi_suggesties voorbeeld_avi_M5 ''AVI-M3''
     = Inr [AVI_Kortere_woorden 4.5 3.3, Frequentere_woorden 75 91,
            Max_lettergrepen 1, AVI_Kortere_zinnen 6,
            Vermijd ''Tweelettergrepige woorden, medeklinkerclusters'',
            Woordtypen ''AVI-M3''
              (''Alleen '' @ [CHR 0xE9, CHR 0xE9]
               @ ''nlettergrepige woorden (mkm-structuur: mak, pen, vis)'')]
   \<and> level_index ''AVI-M3'' < level_index (AVIResult.niveau voorbeeld_avi_M5)
   \<and> list_all (\<lambda>s. is_vereenvoudigen s \<or> is_woordtypen s)
        [AVI_Kortere_woorden 4.5 3.3, Frequentere_woorden 75 91,
         Max_lettergrepen 1, AVI_Kortere_zinnen 6,
         Vermijd ''Tweelettergrepige woorden, medeklinkerclusters'',
         Woordtypen ''AVI-M3''
           (''Alleen '' @ [CHR 0xE9, CHR 0xE9]
            @ ''nlettergrepige woorden (mkm-structuur: mak, pen, vis)'')]
   \<and> get_ref_suggesties voorbeeld_ref_2F ''3F''
       = Inr [REF_Langere_woorden 4.91 5.27, REF_Langere_zinnen 14.4 17.4,
              Meer_lange_zinnen 15 31, Tip_verrijk]
   \<and> list_all is_verrijken
        [REF_Langere_woorden 4.91 5.27, REF_Langere_zinnen 14.4 17.4,
         Meer_lange_zinnen 15 31, Tip_verrijk]"
proof -
  have a: "get_avi_suggesties voorbeeld_avi_M5 ''AVI-M3''
     = Inr [AVI_Kortere_woorden 4.5 3.3, Frequentere_woorden 75 91,
            Max_lettergrepen 1, AVI_Kortere_zinnen 6,
            Vermijd ''Tweelettergrepige woorden, medeklinkerclusters'',
            Woordtypen ''AVI-M3''
              (''Alleen '' @ [CHR 0xE9, CHR 0xE9]
               @ ''nlettergrepige woorden (mkm-structuur: mak, pen, vis)'')]"
    by (simp add: avi_suggestie_defs)
  have i: "level_index ''AVI-M3'' < level_index (AVIResult.niveau voorbeeld_avi_M5)"
    by (simp add: level_index_def AVI_LEVELS_def mk_level_def voorbeeld_avi_M5_def)
  have b: "get_ref_suggesties voorbeeld_ref_2F ''3F''
       = Inr [REF_Langere_woorden 4.91 5.27, REF_Langere_zinnen 14.4 17.4,
              Meer_lange_zinnen 15 31, Tip_verrijk]"
    by (simp add: ref_suggestie_defs)
  have o: "map_of niveau_order ''3F'' = Some 3"
    "map_of niveau_order (REFResult.niveau voorbeeld_ref_2F) = Some 2"
    by (simp_all add: niveau_order_def voorbeeld_ref_2F_def)
  from suggestie_richting [of voorbeeld_avi_M5 "''AVI-M3''" _ voorbeeld_ref_2F "''3F''",
      unfolded a b] i o
  show ?thesis
    unfolding a b by auto
qed

end
